theory Spec2Isabelle
  imports Main "HOL-Library.Word"
begin

section \<open>doveadm-mail-server.c: dispatching doveadm mail commands to remote servers\<close>

text \<open>
  A shallow embedding of \<^verbatim>\<open>src/doveadm/doveadm-mail-server.c\<close>. C strings are
  \<open>string\<close>, \<^verbatim>\<open>in_port_t\<close> is a 16-bit word, \<^verbatim>\<open>unsigned int\<close> counters are
  \<open>nat\<close>, exit codes are \<open>int\<close>. Pointers to servers are the server's name (the key
  of the \<^verbatim>\<open>servers\<close> hash table), pointers to connections are a pair of the owning
  server's name and a connection number.
\<close>

subsection \<open>Constants and types declared in headers\<close>

definition DOVEADM_SERVER_CONNECTIONS_MAX :: nat where
  "DOVEADM_SERVER_CONNECTIONS_MAX = 4"

definition DOVEADM_SERVER_QUEUE_MAX :: nat where
  "DOVEADM_SERVER_QUEUE_MAX = 16"

text \<open>
  Modelled from the spec: the reply status codes. Their macros come from
  \<^verbatim>\<open>sysexits.h\<close> (\<^verbatim>\<open>EX_NOUSER\<close>, \<^verbatim>\<open>EX_TEMPFAIL\<close>), \<^verbatim>\<open>server-connection.h\<close>
  and \<^verbatim>\<open>doveadm.h\<close>, none of which is part of the file. The spec says: 0 is success,
  there is one fatal "disconnected" sentinel, one "no such user" code, one "referral"
  code, and any other code is a generic failure with a distinguished "temporary
  failure" code. The four codes are pairwise different and nonzero (they label the
  cases of one \<^verbatim>\<open>switch\<close>); the numbers are those of the headers.
\<close>

definition EX_NOUSER :: int where
  "EX_NOUSER = 67"

definition EX_TEMPFAIL :: int where
  "EX_TEMPFAIL = 75"

definition SERVER_EXIT_CODE_DISCONNECTED :: int where
  "SERVER_EXIT_CODE_DISCONNECTED = 1000"

definition DOVEADM_EX_REFERRAL :: int where
  "DOVEADM_EX_REFERRAL = 1002"

text \<open>
  Modelled from the spec: \<^verbatim>\<open>enum doveadm_proxy_ssl_flags\<close> (declared in
  \<^verbatim>\<open>doveadm-server.h\<close>). The spec names the policy flags require-TLS,
  require-STARTTLS and accept-any-certificate; a flags word is the set of the flags
  that are on, and \<^verbatim>\<open>|=\<close> is union.
\<close>

datatype doveadm_proxy_ssl_flag =
  PROXY_SSL_FLAG_YES | PROXY_SSL_FLAG_STARTTLS | PROXY_SSL_FLAG_ANY_CERT

type_synonym doveadm_proxy_ssl_flags = "doveadm_proxy_ssl_flag set"

type_synonym in_port_t = "16 word"

text \<open>
  Modelled from the spec: \<^verbatim>\<open>struct ip_addr\<close> (declared in \<^verbatim>\<open>lib/net.h\<close>), a
  resolved IP address: an address family and the address bytes. \<^verbatim>\<open>i_zero\<close> gives
  family 0 and no bytes.
\<close>

datatype ip_addr = Ip_addr (family: nat) (addr_bytes: "nat list")

definition ip_zero :: ip_addr where
  "ip_zero = Ip_addr 0 []"

record doveadm_settings =
  doveadm_socket_path :: string
  doveadm_port :: in_port_t
  doveadm_ssl :: string
  doveadm_worker_count :: nat

record mail_storage_service_input =
  username :: string
  local_ip :: ip_addr
  remote_ip :: ip_addr
  local_port :: in_port_t
  remote_port :: in_port_t

text \<open>
  The command context \<^verbatim>\<open>struct doveadm_mail_cmd_context\<close>, with the fields this file
  reads or writes: \<^verbatim>\<open>ctx->cmd->name\<close>, \<^verbatim>\<open>ctx->full_args\<close>, \<^verbatim>\<open>ctx->cmd_input\<close>
  (the number of a stream, or NULL), \<^verbatim>\<open>ctx->set\<close>, \<^verbatim>\<open>ctx->exit_code\<close> and
  \<^verbatim>\<open>ctx->cctx->referral\<close>.
\<close>

record doveadm_mail_cmd_context =
  cmd_name :: string
  full_args :: "string list"
  cmd_input :: "nat option"
  ctx_set :: doveadm_settings
  exit_code :: int
  cctx_referral :: "string option"

subsection \<open>Collaborators outside the file\<close>

text \<open>
  Functions and globals this file uses and does not define are parameters of the
  model, collected in one record:
  \<^item> \<open>net_str2port\<close>, \<open>net_addr2ip\<close> (\<^verbatim>\<open>lib/net.c\<close>): \<open>None\<close> is the negative return;
  \<^item> \<open>str_tabescape\<close> (\<^verbatim>\<open>lib/strescape.c\<close>);
  \<^item> \<open>auth_master_pass_lookup\<close>: for an input, the returned integer and the fields;
  \<^item> \<open>auth_socket_path\<close>: what \<^verbatim>\<open>auth_master_get_socket_path\<close> returns;
  \<^item> \<open>auth_proxy_parse_redirect\<close>: \<open>None\<close> is FALSE, otherwise destuser, host, ip
    and port;
  \<^item> \<open>connect_error\<close>: for a server name, the error with which
    \<^verbatim>\<open>server_connection_create\<close> fails there, or \<open>None\<close> when it succeeds;
  \<^item> the globals \<^verbatim>\<open>doveadm_debug\<close>, \<^verbatim>\<open>doveadm_verbose\<close> and \<^verbatim>\<open>doveadm_server\<close>.
\<close>

record collaborators =
  net_str2port :: "string \<Rightarrow> in_port_t option"
  net_addr2ip :: "string \<Rightarrow> ip_addr option"
  str_tabescape :: "string \<Rightarrow> string"
  auth_master_pass_lookup :: "mail_storage_service_input \<Rightarrow> int \<times> string list"
  auth_socket_path :: string
  auth_proxy_parse_redirect :: "string \<Rightarrow> (string \<times> string \<times> ip_addr \<times> in_port_t) option"
  connect_error :: "string \<Rightarrow> string option"
  doveadm_debug :: bool
  doveadm_verbose :: bool
  doveadm_server :: bool

subsection \<open>String helpers of libc\<close>

definition digit_char :: "nat \<Rightarrow> char" where
  "digit_char d = ''0123456789'' ! d"

text \<open>\<^verbatim>\<open>%u\<close> of \<^verbatim>\<open>printf\<close>: the decimal digits of an unsigned number.\<close>

fun u2str :: "nat \<Rightarrow> string" where
  "u2str n = (if n < 10 then [digit_char n] else u2str (n div 10) @ [digit_char (n mod 10)])"

declare u2str.simps [simp del]

text \<open>\<^verbatim>\<open>strncmp(s, p, strlen(p)) == 0\<close>: \<open>p\<close> is a prefix of \<open>s\<close>.\<close>

fun starts_with :: "string \<Rightarrow> string \<Rightarrow> bool" where
  "starts_with s [] = True"
| "starts_with [] (c # p) = False"
| "starts_with (d # s) (c # p) = (d = c \<and> starts_with s p)"

text \<open>\<^verbatim>\<open>strstr(haystack, needle) != NULL\<close>.\<close>

fun strstr_found :: "string \<Rightarrow> string \<Rightarrow> bool" where
  "strstr_found [] needle = (needle = [])"
| "strstr_found (c # s) needle = (starts_with (c # s) needle \<or> strstr_found s needle)"

text \<open>
  Splitting a field at its first \<^verbatim>\<open>=\<close> (\<^verbatim>\<open>strchr\<close>): the key is the text before it,
  the value the text after it; a field without \<^verbatim>\<open>=\<close> is its own key and has the
  empty value.
\<close>

definition field_key :: "string \<Rightarrow> string" where
  "field_key f = takeWhile (\<lambda>c. c \<noteq> CHR ''='') f"

definition field_value :: "string \<Rightarrow> string" where
  "field_value f =
     (if CHR ''='' \<in> set f then tl (dropWhile (\<lambda>c. c \<noteq> CHR ''='') f) else [])"

text \<open>
  The hostname of a server name (\<^verbatim>\<open>strrchr\<close> in \<^verbatim>\<open>doveadm_server_get\<close>): the text
  before the last \<^verbatim>\<open>:\<close>, or the whole name when it has none.
\<close>

definition hostname_of :: "string \<Rightarrow> string" where
  "hostname_of n =
     (if CHR '':'' \<in> set n then rev (tl (dropWhile (\<lambda>c. c \<noteq> CHR '':'') (rev n))) else n)"

subsection \<open>doveadm_mail_server_user_get_host\<close>

text \<open>The local variables of the field loop, with the two out-parameters it writes.\<close>

record host_fields =
  proxy_host :: "string option"
  proxy_hostip :: "string option"
  proxying :: bool
  nologin :: bool
  proxy_port :: in_port_t
  fields_user :: string
  fields_ssl_flags :: doveadm_proxy_ssl_flags

definition parse_field :: "collaborators \<Rightarrow> host_fields \<Rightarrow> string \<Rightarrow> host_fields" where
  "parse_field x st f =
     (let key = field_key f; val = field_value f in
      if key = ''proxy'' then st\<lparr>proxying := True\<rparr>
      else if key = ''nologin'' then st\<lparr>nologin := True\<rparr>
      else if key = ''host'' then st\<lparr>proxy_host := Some val\<rparr>
      else if key = ''hostip'' then st\<lparr>proxy_hostip := Some val\<rparr>
      else if key = ''user'' then st\<lparr>fields_user := val\<rparr>
      else if key = ''destuser'' then st\<lparr>fields_user := val\<rparr>
      else if key = ''port'' then
        (case net_str2port x val of
           None \<Rightarrow> st\<lparr>proxy_port := 0\<rparr>
         | Some p \<Rightarrow> st\<lparr>proxy_port := p\<rparr>)
      else if key = ''ssl'' then
        st\<lparr>fields_ssl_flags :=
             (if val = ''any-cert''
              then fields_ssl_flags st \<union> {PROXY_SSL_FLAG_YES} \<union> {PROXY_SSL_FLAG_ANY_CERT}
              else fields_ssl_flags st \<union> {PROXY_SSL_FLAG_YES})\<rparr>
      else if key = ''starttls'' then
        st\<lparr>fields_ssl_flags :=
             (if val = ''any-cert''
              then fields_ssl_flags st \<union> {PROXY_SSL_FLAG_YES, PROXY_SSL_FLAG_STARTTLS}
                     \<union> {PROXY_SSL_FLAG_ANY_CERT}
              else fields_ssl_flags st \<union> {PROXY_SSL_FLAG_YES, PROXY_SSL_FLAG_STARTTLS})\<rparr>
      else st)"

definition parse_fields :: "collaborators \<Rightarrow> host_fields \<Rightarrow> string list \<Rightarrow> host_fields" where
  "parse_fields x st fs = foldl (parse_field x) st fs"

text \<open>The return value and the out-parameters of the function.\<close>

record host_result =
  ret :: int
  user_r :: string
  host_r :: string
  hostip_r :: ip_addr
  port_r :: in_port_t
  ssl_flags_r :: doveadm_proxy_ssl_flags
  referral_r :: "string option"
  error_r :: "string option"

text \<open>
  What follows the field loop. \<open>r\<close> holds the out-parameters as they are when the loop
  ends, with \<open>ret\<close> the positive result of the lookup.
\<close>

definition host_decision :: "collaborators \<Rightarrow> host_fields \<Rightarrow> host_result \<Rightarrow> host_result" where
  "host_decision x st r =
     (let r1 = (case proxy_hostip st of
                  None \<Rightarrow> r
                | Some h \<Rightarrow>
                    (case net_addr2ip x h of
                       Some a \<Rightarrow> r\<lparr>hostip_r := a\<rparr>
                     | None \<Rightarrow>
                         r\<lparr>ret := - 1,
                           error_r := Some (auth_socket_path x @ '' Invalid hostip value ''
                                            @ [CHR 0x27] @ h @ [CHR 0x27])\<rparr>))
      in
      if \<not> proxying st then
        (if \<not> nologin st then r1\<lparr>ret := 0\<rparr>
         else (case proxy_host st of
                 None \<Rightarrow> r1\<lparr>ret := 0\<rparr>
               | Some h \<Rightarrow> r1\<lparr>ret := 1, referral_r := Some (user_r r1 @ ''@'' @ h)\<rparr>))
      else
        (case proxy_host st of
           None \<Rightarrow>
             (let e = auth_socket_path x @ '': Proxy is missing destination host'';
                  e' = (if strstr_found (auth_socket_path x) ''/auth-userdb''
                        then e @ '' (maybe set auth_socket_path=director-userdb)'' else e)
              in r1\<lparr>ret := - 1, error_r := Some e'\<rparr>)
         | Some h \<Rightarrow>
             r1\<lparr>port_r := proxy_port st,
                host_r := h @ '':'' @ u2str (unat (proxy_port st))\<rparr>))"

text \<open>
  \<open>ssl0\<close>, \<open>hostip0\<close> and \<open>error0\<close> are the caller's values of the in-out parameters
  \<^verbatim>\<open>*ssl_flags_r\<close>, \<^verbatim>\<open>*hostip_r\<close> and \<^verbatim>\<open>*error_r\<close>.
\<close>

definition doveadm_mail_server_user_get_host ::
  "collaborators \<Rightarrow> doveadm_mail_cmd_context \<Rightarrow> mail_storage_service_input \<Rightarrow>
   doveadm_proxy_ssl_flags \<Rightarrow> ip_addr \<Rightarrow> string option \<Rightarrow> host_result" where
  "doveadm_mail_server_user_get_host x ctx input ssl0 hostip0 error0 =
     (let r0 = \<lparr>ret = 0, user_r = username input,
                host_r = doveadm_socket_path (ctx_set ctx), hostip_r = hostip0,
                port_r = doveadm_port (ctx_set ctx), ssl_flags_r = ssl0,
                referral_r = None, error_r = error0\<rparr>
      in
      if doveadm_port (ctx_set ctx) = 0 then r0
      else
        (let ssl1 = (if doveadm_ssl (ctx_set ctx) = ''ssl'' then ssl0 \<union> {PROXY_SSL_FLAG_YES}
                     else if doveadm_ssl (ctx_set ctx) = ''starttls''
                     then ssl0 \<union> {PROXY_SSL_FLAG_YES, PROXY_SSL_FLAG_STARTTLS}
                     else ssl0);
             r1 = r0\<lparr>ssl_flags_r := ssl1\<rparr>;
             lookup = auth_master_pass_lookup x input
         in
         if fst lookup < 0 then
           r1\<lparr>ret := fst lookup,
              error_r := Some (auth_socket_path x @ '': ''
                   @ (case snd lookup of [] \<Rightarrow> ''passdb lookup failed'' | f # _ \<Rightarrow> f)
                   @ '' (to see if user is proxied, because doveadm_port is set)'')\<rparr>
         else if fst lookup = 0 then r1\<lparr>ret := 0\<rparr>
         else
           (let st = parse_fields x
                       \<lparr>proxy_host = None, proxy_hostip = None, proxying = False,
                        nologin = False, proxy_port = doveadm_port (ctx_set ctx),
                        fields_user = username input, fields_ssl_flags = ssl1\<rparr>
                       (snd lookup)
            in host_decision x st
                 (r1\<lparr>ret := fst lookup, user_r := fields_user st,
                     ssl_flags_r := fields_ssl_flags st\<rparr>))))"

subsection \<open>Servers, connections and the global state\<close>

text \<open>A pointer to a connection: the name of its server and the connection's number.\<close>

type_synonym conn_ref = "string \<times> nat"

record doveadm_mail_server_cmd =
  cmd_conn :: conn_ref
  cmd_username :: string
  cmdline :: string
  cmd_istream :: "nat option"

text \<open>
  Modelled from the spec: \<^verbatim>\<open>struct server_connection\<close> (\<^verbatim>\<open>server-connection.c\<close>).
  The spec says a connection has an idle or busy state observable by the dispatcher,
  carries at most one in-flight command, and is handed a line, an optional stream and
  a reply callback with its context. A connection is busy exactly while it holds the
  context of a command.
\<close>

record server_connection =
  conn_id :: nat
  conn_context :: "doveadm_mail_server_cmd option"

record doveadm_server =
  name :: string
  hostname :: string
  ip :: ip_addr
  port :: in_port_t
  ssl_flags :: doveadm_proxy_ssl_flags
  connections :: "server_connection list"
  queue :: "string list"

record doveadm_server_reply =
  reply_exit_code :: int
  reply_error :: string

text \<open>One call of \<^verbatim>\<open>server_connection_cmd\<close>: the connection, the line, the stream
  with the offset it has when it is handed over, and the callback's context.\<close>

record sent_cmd =
  sent_conn :: conn_ref
  sent_line :: string
  sent_input :: "(nat \<times> nat) option"
  sent_context :: doveadm_mail_server_cmd

text \<open>
  The globals of the file and the state of its collaborators that it changes:
  the \<^verbatim>\<open>servers\<close> hash table, \<^verbatim>\<open>cmd_ctx\<close> (the pointer is modelled by the value of
  the context it points to, \<open>None\<close> is NULL), \<^verbatim>\<open>internal_failure\<close>, what
  \<^verbatim>\<open>master_service_is_killed\<close> returns, whether the current ioloop is running
  (\<^verbatim>\<open>io_loop_stop\<close> clears it), the read offset and the reference count of every
  input stream, the calls of \<^verbatim>\<open>server_connection_cmd\<close>, the lines written by
  \<^verbatim>\<open>i_error\<close>, and whether doveadm-print has sticky headers.
\<close>

record state =
  servers :: "string \<Rightarrow> doveadm_server option"
  next_conn_id :: nat
  cmd_ctx :: "doveadm_mail_cmd_context option"
  internal_failure :: bool
  master_service_killed :: bool
  ioloop_running :: bool
  stream_offset :: "nat \<Rightarrow> nat"
  stream_refcount :: "nat \<Rightarrow> int"
  sent :: "sent_cmd list"
  error_log :: "string list"
  sticky_headers :: bool

text \<open>
  What the C code cannot do and a state of the model can: follow a pointer to a
  server that is not in the table, or read \<^verbatim>\<open>cmd_ctx\<close> while it is NULL. A failed
  \<^verbatim>\<open>i_assert\<close> panics. \<open>Never_returns\<close> is a loop that has used up its fuel.
\<close>

datatype fault = Assert_failed | Null_pointer | Dangling_pointer | Never_returns

definition DOVEADM_MAIL_SERVER_FAILED :: "state \<Rightarrow> bool" where
  "DOVEADM_MAIL_SERVER_FAILED s = (internal_failure s \<or> master_service_killed s)"

text \<open>An assignment through a pointer to a server.\<close>

definition server_upd :: "string \<Rightarrow> (doveadm_server \<Rightarrow> doveadm_server) \<Rightarrow> state \<Rightarrow> state" where
  "server_upd n f s = s\<lparr>servers := (servers s)(n := map_option f (servers s n))\<rparr>"

text \<open>
  \<^verbatim>\<open>doveadm_server_get\<close>. The returned pointer is the name itself. \<^verbatim>\<open>p_new\<close> zeroes the
  new server. The capacities given to \<^verbatim>\<open>p_array_init\<close> are sizes of the first
  allocation, not bounds, and are not modelled.
\<close>

definition doveadm_server_get :: "string \<Rightarrow> state \<Rightarrow> state" where
  "doveadm_server_get nm s =
     (case servers s nm of
        Some server \<Rightarrow> s
      | None \<Rightarrow>
          s\<lparr>servers := (servers s)(nm \<mapsto>
               \<lparr>name = nm, hostname = hostname_of nm, ip = ip_zero, port = 0,
                ssl_flags = {}, connections = [], queue = []\<rparr>)\<rparr>)"

definition server_connection_is_idle :: "server_connection \<Rightarrow> bool" where
  "server_connection_is_idle conn = (conn_context conn = None)"

definition doveadm_server_find_unused_conn :: "doveadm_server \<Rightarrow> server_connection option" where
  "doveadm_server_find_unused_conn server =
     find server_connection_is_idle (connections server)"

definition doveadm_server_have_used_connections :: "doveadm_server \<Rightarrow> bool" where
  "doveadm_server_have_used_connections server =
     (find (\<lambda>conn. \<not> server_connection_is_idle conn) (connections server) \<noteq> None)"

text \<open>
  Modelled from the spec: \<^verbatim>\<open>server_connection_create\<close> (\<^verbatim>\<open>server-connection.c\<close>),
  in the spec \<open>create(destination) -> Connection | error\<close>, with the destination's
  \<open>connections\<close> the ordered collection of its live connections. A created
  connection is new, idle, and the last of its server's connections; a failed
  creation leaves no connection behind.
\<close>

definition server_connection_create ::
  "collaborators \<Rightarrow> string \<Rightarrow> state \<Rightarrow> (string + nat) \<times> state" where
  "server_connection_create x n s =
     (case connect_error x n of
        Some e \<Rightarrow> (Inl e, s)
      | None \<Rightarrow>
          (Inr (next_conn_id s),
           server_upd n
             (\<lambda>server. server\<lparr>connections := connections server
                 @ [\<lparr>conn_id = next_conn_id s, conn_context = None\<rparr>]\<rparr>)
             (s\<lparr>next_conn_id := Suc (next_conn_id s)\<rparr>)))"

text \<open>
  Modelled from the spec: \<^verbatim>\<open>server_connection_cmd\<close> (\<^verbatim>\<open>server-connection.c\<close>), in
  the spec \<open>send(Connection, line, optionalInputStream, callback)\<close>. The connection
  becomes busy with the context, and the call is recorded.
\<close>

definition server_connection_cmd ::
  "conn_ref \<Rightarrow> string \<Rightarrow> nat option \<Rightarrow> doveadm_mail_server_cmd \<Rightarrow> state \<Rightarrow> state" where
  "server_connection_cmd conn line input context s =
     server_upd (fst conn)
       (\<lambda>server. server\<lparr>connections :=
          map (\<lambda>c. if conn_id c = snd conn then c\<lparr>conn_context := Some context\<rparr> else c)
              (connections server)\<rparr>)
       (s\<lparr>sent := sent s
            @ [\<lparr>sent_conn = conn, sent_line = line,
                sent_input = map_option (\<lambda>i. (i, stream_offset s i)) input,
                sent_context = context\<rparr>]\<rparr>)"

text \<open>
  Modelled from the spec: the transport's side of a reply (\<^verbatim>\<open>server-connection.c\<close>).
  The spec says a connection carries one in-flight command at a time and that, when a
  command completes, a connection is idle again for the queue to use: the connection
  gives up its command before the reply callback runs.
\<close>

definition server_connection_set_idle :: "conn_ref \<Rightarrow> state \<Rightarrow> state" where
  "server_connection_set_idle conn s =
     server_upd (fst conn)
       (\<lambda>server. server\<lparr>connections :=
          map (\<lambda>c. if conn_id c = snd conn then c\<lparr>conn_context := None\<rparr> else c)
              (connections server)\<rparr>) s"

definition i_stream_seek :: "nat \<Rightarrow> nat \<Rightarrow> state \<Rightarrow> state" where
  "i_stream_seek i off s = s\<lparr>stream_offset := (stream_offset s)(i := off)\<rparr>"

definition i_stream_ref :: "nat \<Rightarrow> state \<Rightarrow> state" where
  "i_stream_ref i s = s\<lparr>stream_refcount := (stream_refcount s)(i := stream_refcount s i + 1)\<rparr>"

definition i_stream_unref :: "nat \<Rightarrow> state \<Rightarrow> state" where
  "i_stream_unref i s = s\<lparr>stream_refcount := (stream_refcount s)(i := stream_refcount s i - 1)\<rparr>"

definition i_error :: "string \<Rightarrow> state \<Rightarrow> state" where
  "i_error msg s = s\<lparr>error_log := error_log s @ [msg]\<rparr>"

definition io_loop_stop :: "state \<Rightarrow> state" where
  "io_loop_stop s = s\<lparr>ioloop_running := False\<rparr>"

subsection \<open>Commands\<close>

text \<open>\<^verbatim>\<open>doveadm_mail_server_cmd_free\<close>: of the memory it releases, the stream's
  reference is the part of the state.\<close>

definition doveadm_mail_server_cmd_free :: "doveadm_mail_server_cmd \<Rightarrow> state \<Rightarrow> state" where
  "doveadm_mail_server_cmd_free cmd s =
     (case cmd_istream cmd of None \<Rightarrow> s | Some i \<Rightarrow> i_stream_unref i s)"

text \<open>The line \<^verbatim>\<open><flags> <username> <command> [<args>]\<close> built by
  \<^verbatim>\<open>doveadm_mail_server_handle\<close>.\<close>

definition handle_cmdline :: "collaborators \<Rightarrow> doveadm_mail_cmd_context \<Rightarrow> string \<Rightarrow> string" where
  "handle_cmdline x ctx user =
     (if doveadm_debug x then ''D'' else if doveadm_verbose x then ''v'' else [])
     @ [CHR 0x09] @ str_tabescape x user
     @ [CHR 0x09] @ str_tabescape x (cmd_name ctx)
     @ concat (map (\<lambda>arg. CHR 0x09 # str_tabescape x arg) (full_args ctx))
     @ [CHR 0x0A]"

definition doveadm_mail_server_handle ::
  "collaborators \<Rightarrow> conn_ref \<Rightarrow> string \<Rightarrow> state \<Rightarrow> fault + state" where
  "doveadm_mail_server_handle x conn user s =
     (case cmd_ctx s of
        None \<Rightarrow> Inl Null_pointer
      | Some ctx \<Rightarrow>
          (let cmd = handle_cmdline x ctx user;
               servercmd = \<lparr>cmd_conn = conn, cmd_username = user, cmdline = cmd,
                            cmd_istream = cmd_input ctx\<rparr>;
               s1 = (case cmd_input ctx of None \<Rightarrow> s | Some i \<Rightarrow> i_stream_ref i s)
           in Inr (server_connection_cmd conn cmd (cmd_input ctx) servercmd s1)))"

text \<open>\<^verbatim>\<open>doveadm_cmd_redirect\<close>, from the point where it has a connection.\<close>

definition doveadm_cmd_redirect_send ::
  "doveadm_mail_server_cmd \<Rightarrow> conn_ref \<Rightarrow> state \<Rightarrow> state" where
  "doveadm_cmd_redirect_send servercmd conn s =
     (let servercmd' = servercmd\<lparr>cmd_conn := conn\<rparr>;
          s1 = (case cmd_istream servercmd' of None \<Rightarrow> s | Some i \<Rightarrow> i_stream_seek i 0 s)
      in server_connection_cmd conn (cmdline servercmd') (cmd_istream servercmd')
           servercmd' s1)"

definition doveadm_cmd_redirect ::
  "collaborators \<Rightarrow> doveadm_mail_server_cmd \<Rightarrow> string \<Rightarrow> state \<Rightarrow> fault + (int \<times> state)" where
  "doveadm_cmd_redirect x servercmd destination s =
     (case servers s (fst (cmd_conn servercmd)) of
        None \<Rightarrow> Inl Dangling_pointer
      | Some orig_server \<Rightarrow>
          (case auth_proxy_parse_redirect x destination of
             None \<Rightarrow>
               Inr (- 1, i_error (name orig_server @ '': Invalid redirect destination: ''
                                   @ destination) s)
           | Some (destuser, host, ip', port') \<Rightarrow>
               (let s1 = doveadm_server_get destination s;
                    s2 = server_upd destination
                           (\<lambda>new_server. new_server\<lparr>ip := ip',
                              ssl_flags := ssl_flags orig_server,
                              port := (if port' \<noteq> 0 then port' else port orig_server)\<rparr>) s1
                in
                case servers s2 destination of
                  None \<Rightarrow> Inl Dangling_pointer
                | Some new_server \<Rightarrow>
                    (case doveadm_server_find_unused_conn new_server of
                       Some conn \<Rightarrow>
                         Inr (0, doveadm_cmd_redirect_send servercmd
                                   (destination, conn_id conn) s2)
                     | None \<Rightarrow>
                         (case server_connection_create x destination s2 of
                            (Inl err, s3) \<Rightarrow>
                              Inr (- 1, i_error (name new_server
                                     @ '': Failed to create redirect connection: '' @ err) s3)
                          | (Inr c, s3) \<Rightarrow>
                              Inr (0, doveadm_cmd_redirect_send servercmd
                                        (destination, c) s3))))))"

text \<open>\<^verbatim>\<open>doveadm_cmd_callback\<close> after its \<^verbatim>\<open>switch\<close>: the command is freed, the
  server's queue is served, the ioloop is stopped.\<close>

definition doveadm_cmd_callback_finish ::
  "collaborators \<Rightarrow> doveadm_mail_server_cmd \<Rightarrow> state \<Rightarrow> fault + state" where
  "doveadm_cmd_callback_finish x servercmd s =
     (let s1 = doveadm_mail_server_cmd_free servercmd s in
      case servers s1 (fst (cmd_conn servercmd)) of
        None \<Rightarrow> Inl Dangling_pointer
      | Some server \<Rightarrow>
          (case queue server of
             [] \<Rightarrow> Inr (io_loop_stop s1)
           | user # rest \<Rightarrow>
               (case doveadm_server_find_unused_conn server of
                  None \<Rightarrow> Inr (io_loop_stop s1)
                | Some conn \<Rightarrow>
                    (case doveadm_mail_server_handle x
                            (fst (cmd_conn servercmd), conn_id conn) user
                            (server_upd (fst (cmd_conn servercmd))
                               (\<lambda>sv. sv\<lparr>queue := rest\<rparr>) s1) of
                       Inl f \<Rightarrow> Inl f
                     | Inr s2 \<Rightarrow> Inr (io_loop_stop s2)))))"

definition doveadm_cmd_callback ::
  "collaborators \<Rightarrow> doveadm_server_reply \<Rightarrow> doveadm_mail_server_cmd \<Rightarrow> state \<Rightarrow> fault + state" where
  "doveadm_cmd_callback x reply servercmd s =
     (case servers s (fst (cmd_conn servercmd)) of
        None \<Rightarrow> Inl Dangling_pointer
      | Some server \<Rightarrow>
          if reply_exit_code reply = 0 then doveadm_cmd_callback_finish x servercmd s
          else if reply_exit_code reply = SERVER_EXIT_CODE_DISCONNECTED then
            (case cmd_ctx s of
               None \<Rightarrow> Inl Null_pointer
             | Some ctx \<Rightarrow>
                 Inr (doveadm_mail_server_cmd_free servercmd
                        (io_loop_stop
                           ((i_error (name server @ '': Command '' @ cmd_name ctx
                                @ '' failed for '' @ cmd_username servercmd @ '': ''
                                @ reply_error reply) s)
                            \<lparr>internal_failure := True\<rparr>))))
          else if reply_exit_code reply = EX_NOUSER then
            (case cmd_ctx s of
               None \<Rightarrow> Inl Null_pointer
             | Some ctx \<Rightarrow>
                 doveadm_cmd_callback_finish x servercmd
                   ((i_error (name server @ '': No such user: '' @ cmd_username servercmd) s)
                    \<lparr>cmd_ctx := Some (if exit_code ctx = 0
                                       then ctx\<lparr>exit_code := EX_NOUSER\<rparr> else ctx)\<rparr>))
          else if reply_exit_code reply = DOVEADM_EX_REFERRAL then
            (case doveadm_cmd_redirect x servercmd (reply_error reply) s of
               Inl f \<Rightarrow> Inl f
             | Inr (r, s1) \<Rightarrow>
                 if r < 0
                 then Inr (doveadm_mail_server_cmd_free servercmd
                             (io_loop_stop (s1\<lparr>internal_failure := True\<rparr>)))
                 else Inr s1)
          else
            (case cmd_ctx s of
               None \<Rightarrow> Inl Null_pointer
             | Some ctx \<Rightarrow>
                 doveadm_cmd_callback_finish x servercmd
                   (s\<lparr>cmd_ctx := Some (if exit_code ctx = 0
                                           \<or> reply_exit_code reply = EX_TEMPFAIL
                                        then ctx\<lparr>exit_code := reply_exit_code reply\<rparr>
                                        else ctx)\<rparr>)))"

text \<open>A sequence of replies, each with the command it answers, handled in order.\<close>

fun doveadm_cmd_callbacks ::
  "collaborators \<Rightarrow> (doveadm_server_reply \<times> doveadm_mail_server_cmd) list \<Rightarrow> state
   \<Rightarrow> fault + state" where
  "doveadm_cmd_callbacks x [] s = Inr s"
| "doveadm_cmd_callbacks x (rc # rcs) s =
     (case doveadm_cmd_callback x (fst rc) (snd rc) s of
        Inl f \<Rightarrow> Inl f
      | Inr s' \<Rightarrow> doveadm_cmd_callbacks x rcs s')"

subsection \<open>Draining and dispatching\<close>

text \<open>
  \<^verbatim>\<open>doveadm_server_flush_one\<close>. \<^verbatim>\<open>io_loop_run\<close> belongs to the ioloop library and
  runs whatever handlers are ready, so it is a parameter: a function on states that
  may also fail. The \<^verbatim>\<open>do ... while\<close> loop may run forever; \<open>fuel\<close> bounds the number
  of its rounds, and a loop that needs more of them does not return.
\<close>

fun doveadm_server_flush_loop ::
  "(state \<Rightarrow> fault + state) \<Rightarrow> nat \<Rightarrow> string \<Rightarrow> nat \<Rightarrow> state \<Rightarrow> fault + state" where
  "doveadm_server_flush_loop io_loop_run 0 n count s = Inl Never_returns"
| "doveadm_server_flush_loop io_loop_run (Suc fuel) n count s =
     (case io_loop_run s of
        Inl f \<Rightarrow> Inl f
      | Inr s1 \<Rightarrow>
          (case servers s1 n of
             None \<Rightarrow> Inl Dangling_pointer
           | Some server \<Rightarrow>
               if length (queue server) = count
                  \<and> doveadm_server_have_used_connections server
                  \<and> \<not> DOVEADM_MAIL_SERVER_FAILED s1
               then doveadm_server_flush_loop io_loop_run fuel n count s1
               else Inr s1))"

definition doveadm_server_flush_one ::
  "(state \<Rightarrow> fault + state) \<Rightarrow> nat \<Rightarrow> string \<Rightarrow> state \<Rightarrow> fault + state" where
  "doveadm_server_flush_one io_loop_run fuel n s =
     (case servers s n of
        None \<Rightarrow> Inl Dangling_pointer
      | Some server \<Rightarrow> doveadm_server_flush_loop io_loop_run fuel n (length (queue server)) s)"

text \<open>\<^verbatim>\<open>array_push_back(&server->queue, &username_dup)\<close>.\<close>

definition doveadm_server_queue_push :: "string \<Rightarrow> string \<Rightarrow> state \<Rightarrow> state" where
  "doveadm_server_queue_push n user s =
     server_upd n (\<lambda>server. server\<lparr>queue := queue server @ [user]\<rparr>) s"

text \<open>The queue of a server; a server that does not exist yet has nothing queued.\<close>

definition server_queue :: "state \<Rightarrow> string \<Rightarrow> string list" where
  "server_queue s n = (case servers s n of None \<Rightarrow> [] | Some server \<Rightarrow> queue server)"

text \<open>The last two lines of \<^verbatim>\<open>doveadm_mail_server_user\<close>: the return value and
  \<^verbatim>\<open>*error_r\<close>.\<close>

definition doveadm_mail_server_user_return :: "state \<Rightarrow> fault + (int \<times> string option \<times> state)" where
  "doveadm_mail_server_user_return s =
     Inr (if DOVEADM_MAIL_SERVER_FAILED s then - 1 else 1, Some ''doveadm server failure'', s)"

text \<open>The server of \<^verbatim>\<open>doveadm_mail_server_user\<close> as it is when the connection is
  chosen: looked up or created, with the routing result assigned to it.\<close>

definition doveadm_mail_server_user_server :: "host_result \<Rightarrow> state \<Rightarrow> state" where
  "doveadm_mail_server_user_server r s =
     server_upd (host_r r)
       (\<lambda>server. server\<lparr>ip := hostip_r r, ssl_flags := ssl_flags_r r, port := port_r r\<rparr>)
       (doveadm_server_get (host_r r) (s\<lparr>sticky_headers := False\<rparr>))"

text \<open>\<^verbatim>\<open>doveadm_mail_server_user\<close> from \<^verbatim>\<open>doveadm_server_find_unused_conn\<close> on.\<close>

definition doveadm_mail_server_user_dispatch ::
  "collaborators \<Rightarrow> (state \<Rightarrow> fault + state) \<Rightarrow> nat \<Rightarrow> doveadm_mail_cmd_context \<Rightarrow>
   host_result \<Rightarrow> state \<Rightarrow> fault + (int \<times> string option \<times> state)" where
  "doveadm_mail_server_user_dispatch x io_loop_run fuel ctx r s =
     (case servers s (host_r r) of
        None \<Rightarrow> Inl Dangling_pointer
      | Some server \<Rightarrow>
          (case doveadm_server_find_unused_conn server of
             Some conn \<Rightarrow>
               (case doveadm_mail_server_handle x (host_r r, conn_id conn) (user_r r) s of
                  Inl f \<Rightarrow> Inl f
                | Inr s1 \<Rightarrow> doveadm_mail_server_user_return s1)
           | None \<Rightarrow>
               if length (connections server) < max (doveadm_worker_count (ctx_set ctx)) 1
               then
                 (case server_connection_create x (host_r r) s of
                    (Inl err, s1) \<Rightarrow> Inr (- 1, Some err, s1\<lparr>internal_failure := True\<rparr>)
                  | (Inr c, s1) \<Rightarrow>
                      (case doveadm_mail_server_handle x (host_r r, c) (user_r r) s1 of
                         Inl f \<Rightarrow> Inl f
                       | Inr s2 \<Rightarrow> doveadm_mail_server_user_return s2))
               else
                 (case (if length (queue server) \<ge> DOVEADM_SERVER_QUEUE_MAX
                        then doveadm_server_flush_one io_loop_run fuel (host_r r) s
                        else Inr s) of
                    Inl f \<Rightarrow> Inl f
                  | Inr s1 \<Rightarrow>
                      doveadm_mail_server_user_return
                        (doveadm_server_queue_push (host_r r) (user_r r) s1))))"

text \<open>
  \<^verbatim>\<open>doveadm_mail_server_user\<close>. The result is the return value, \<^verbatim>\<open>*error_r\<close> and the
  state; \<open>error0\<close> is the caller's \<^verbatim>\<open>*error_r\<close>.
\<close>

definition doveadm_mail_server_user ::
  "collaborators \<Rightarrow> (state \<Rightarrow> fault + state) \<Rightarrow> nat \<Rightarrow> doveadm_mail_cmd_context \<Rightarrow>
   mail_storage_service_input \<Rightarrow> string option \<Rightarrow> state
   \<Rightarrow> fault + (int \<times> string option \<times> state)" where
  "doveadm_mail_server_user x io_loop_run fuel ctx input error0 s =
     (if \<not> (cmd_ctx s = Some ctx \<or> cmd_ctx s = None) then Inl Assert_failed
      else
        (let s0 = s\<lparr>cmd_ctx := Some ctx\<rparr>;
             r = doveadm_mail_server_user_get_host x ctx input {} ip_zero error0
         in
         if ret r < 0 then Inr (ret r, error_r r, s0)
         else if ret r = 0 \<and> (doveadm_worker_count (ctx_set ctx) = 0 \<or> doveadm_server x)
         then Inr (0, error_r r, s0)
         else
           (case referral_r r of
              Some referral \<Rightarrow>
                Inr (1, error_r r, s0\<lparr>cmd_ctx := Some (ctx\<lparr>cctx_referral := Some referral\<rparr>)\<rparr>)
            | None \<Rightarrow>
                doveadm_mail_server_user_dispatch x io_loop_run fuel ctx r
                  (doveadm_mail_server_user_server r s0))))"

subsection \<open>Histories of a queue\<close>

text \<open>
  What happens to the queues in a run: \<^verbatim>\<open>doveadm_cmd_callback\<close> handles a reply,
  \<^verbatim>\<open>doveadm_mail_server_user\<close> appends a username to the queue of a server, or the
  transport makes a connection idle. \<open>completes\<close> holds of the replies that end a command (neither a disconnect nor
  a referral), \<open>enqueued_on\<close> lists the usernames appended to a server's queue, in
  order, and \<open>dispatched_on\<close> the usernames of the commands handed to a server's
  connections, in order.
\<close>

datatype queue_event =
  Reply doveadm_server_reply doveadm_mail_server_cmd
  | Enqueue string string
  | Idle conn_ref

fun queue_events ::
  "collaborators \<Rightarrow> queue_event list \<Rightarrow> state \<Rightarrow> fault + state" where
  "queue_events x [] s = Inr s"
| "queue_events x (Reply reply servercmd # es) s =
     (case doveadm_cmd_callback x reply servercmd s of
        Inl f \<Rightarrow> Inl f
      | Inr s' \<Rightarrow> queue_events x es s')"
| "queue_events x (Enqueue n user # es) s =
     queue_events x es (doveadm_server_queue_push n user s)"
| "queue_events x (Idle conn # es) s =
     queue_events x es (server_connection_set_idle conn s)"

fun completes :: "queue_event \<Rightarrow> bool" where
  "completes (Reply reply servercmd) =
     (reply_exit_code reply \<noteq> SERVER_EXIT_CODE_DISCONNECTED
      \<and> reply_exit_code reply \<noteq> DOVEADM_EX_REFERRAL)"
| "completes (Enqueue n user) = True"
| "completes (Idle conn) = True"

fun enqueued_on :: "string \<Rightarrow> queue_event list \<Rightarrow> string list" where
  "enqueued_on n [] = []"
| "enqueued_on n (Reply reply servercmd # es) = enqueued_on n es"
| "enqueued_on n (Enqueue m user # es) =
     (if m = n then user # enqueued_on n es else enqueued_on n es)"
| "enqueued_on n (Idle conn # es) = enqueued_on n es"

definition dispatched_on :: "string \<Rightarrow> sent_cmd list \<Rightarrow> string list" where
  "dispatched_on n cmds =
     map (\<lambda>e. cmd_username (sent_context e)) (filter (\<lambda>e. fst (sent_conn e) = n) cmds)"

subsection \<open>Example inputs\<close>

text \<open>Collaborators whose authentication lookup succeeds with the given fields.\<close>

definition example_collaborators :: "string list \<Rightarrow> collaborators" where
  "example_collaborators fs =
     \<lparr>net_str2port = (\<lambda>v. if v = ''2000'' then Some 2000 else None),
      net_addr2ip = (\<lambda>v. if v = ''10.0.0.1'' then Some (Ip_addr 2 [10, 0, 0, 1]) else None),
      str_tabescape = (\<lambda>v. v),
      auth_master_pass_lookup = (\<lambda>i. (1, fs)),
      auth_socket_path = ''/run/dovecot/auth-master'',
      auth_proxy_parse_redirect =
        (\<lambda>d. if d = ''b'' then Some ([], ''b'', Ip_addr 2 [10, 0, 0, 2], 0) else None),
      connect_error = (\<lambda>n. None),
      doveadm_debug = False, doveadm_verbose = False, doveadm_server = False\<rparr>"

definition example_ctx :: doveadm_mail_cmd_context where
  "example_ctx =
     \<lparr>cmd_name = ''fetch'', full_args = [''text'', ''all''], cmd_input = Some 0,
      ctx_set = \<lparr>doveadm_socket_path = ''/run/dovecot/doveadm-server'', doveadm_port = 24245,
                 doveadm_ssl = ''no'', doveadm_worker_count = 1\<rparr>,
      exit_code = 0, cctx_referral = None\<rparr>"

definition example_input :: mail_storage_service_input where
  "example_input =
     \<lparr>username = ''alice'', local_ip = ip_zero, remote_ip = ip_zero,
      local_port = 0, remote_port = 0\<rparr>"

definition example_get_host :: "string list \<Rightarrow> host_result" where
  "example_get_host fs =
     doveadm_mail_server_user_get_host (example_collaborators fs) example_ctx example_input
       {} ip_zero None"

definition recorded_exit_code :: "fault + state \<Rightarrow> int option" where
  "recorded_exit_code res =
     (case res of Inl f \<Rightarrow> None | Inr s \<Rightarrow> map_option exit_code (cmd_ctx s))"

definition example_server ::
  "string \<Rightarrow> server_connection list \<Rightarrow> string list \<Rightarrow> doveadm_server" where
  "example_server n conns q =
     \<lparr>name = n, hostname = hostname_of n, ip = ip_zero, port = 24245,
      ssl_flags = {PROXY_SSL_FLAG_YES}, connections = conns, queue = q\<rparr>"

definition example_cmd :: "conn_ref \<Rightarrow> string \<Rightarrow> doveadm_mail_server_cmd" where
  "example_cmd conn user =
     \<lparr>cmd_conn = conn, cmd_username = user,
      cmdline = handle_cmdline (example_collaborators []) example_ctx user,
      cmd_istream = Some 0\<rparr>"

definition example_state :: "(string \<Rightarrow> doveadm_server option) \<Rightarrow> int \<Rightarrow> state" where
  "example_state svs code =
     \<lparr>servers = svs, next_conn_id = 2,
      cmd_ctx = Some (example_ctx\<lparr>exit_code := code\<rparr>),
      internal_failure = False, master_service_killed = False, ioloop_running = True,
      stream_offset = (\<lambda>i. 100), stream_refcount = (\<lambda>i. 1), sent = [], error_log = [],
      sticky_headers = False\<rparr>"

definition example_reply :: "int \<Rightarrow> doveadm_server_reply" where
  "example_reply code = \<lparr>reply_exit_code = code, reply_error = ''b''\<rparr>"

text \<open>One server \<open>a\<close> with one idle connection and an empty queue.\<close>
definition example_idle :: "int \<Rightarrow> state" where
  "example_idle code =
     example_state
       [''a'' \<mapsto> example_server ''a'' [\<lparr>conn_id = 0, conn_context = None\<rparr>] []] code"

text \<open>Server \<open>a\<close> with one idle connection and the queue \<open>q\<close>, server \<open>b\<close> with one
  connection that is busy with a command for carol.\<close>

definition example_two_servers :: "string list \<Rightarrow> state" where
  "example_two_servers q =
     example_state
       [''a'' \<mapsto> example_server ''a'' [\<lparr>conn_id = 0, conn_context = None\<rparr>] q,
        ''b'' \<mapsto> example_server ''b''
                  [\<lparr>conn_id = 1, conn_context = Some (example_cmd (''b'', 1) ''carol'')\<rparr>] []]
       0"

definition connection_count :: "fault + state \<Rightarrow> string \<Rightarrow> nat option" where
  "connection_count res n =
     (case res of
        Inl f \<Rightarrow> None
      | Inr s \<Rightarrow> map_option (\<lambda>server. length (connections server)) (servers s n))"

text \<open>Server \<open>b:2000\<close> at the worker limit of 1, its connection busy with a command for
  carol, and sixteen usernames in its queue.\<close>

definition example_full_queue :: state where
  "example_full_queue =
     example_state
       [''b:2000'' \<mapsto> example_server ''b:2000''
          [\<lparr>conn_id = 0, conn_context = Some (example_cmd (''b:2000'', 0) ''carol'')\<rparr>]
          [''u01'', ''u02'', ''u03'', ''u04'', ''u05'', ''u06'', ''u07'', ''u08'',
           ''u09'', ''u10'', ''u11'', ''u12'', ''u13'', ''u14'', ''u15'', ''u16'']]
       0"

text \<open>An ioloop run in which the command for carol is answered with success.\<close>

definition example_io_loop_run :: "state \<Rightarrow> fault + state" where
  "example_io_loop_run s =
     doveadm_cmd_callback (example_collaborators []) (example_reply 0)
       (example_cmd (''b:2000'', 0) ''carol'')
       (server_connection_set_idle (''b:2000'', 0) s)"

definition example_user :: "fault + (int \<times> string option \<times> state)" where
  "example_user =
     doveadm_mail_server_user (example_collaborators [''proxy'', ''host=b'', ''port=2000''])
       example_io_loop_run 1 (example_ctx\<lparr>exit_code := 0\<rparr>) example_input None
       example_full_queue"

section \<open>Properties of the routing resolver\<close>

lemmas example_defs = example_collaborators_def example_ctx_def example_input_def

lemmas get_host_defs =
  doveadm_mail_server_user_get_host_def parse_fields_def parse_field_def
  field_key_def field_value_def host_decision_def u2str.simps digit_char_def Let_def

lemma parse_fields_append:
  "parse_fields x st (fs @ gs) = parse_fields x (parse_fields x st fs) gs"
  by (simp add: parse_fields_def)

lemma parse_fields_Cons:
  "parse_fields x st (f # fs) = parse_fields x (parse_field x st f) fs"
  by (simp add: parse_fields_def)

lemma parse_fields_Nil: "parse_fields x st [] = st"
  by (simp add: parse_fields_def)

lemma proxying_parse_field:
  "proxying (parse_field x st f) = (proxying st \<or> field_key f = ''proxy'')"
  by (simp add: parse_field_def Let_def split: option.splits)

lemma nologin_parse_field:
  "nologin (parse_field x st f) = (nologin st \<or> field_key f = ''nologin'')"
  by (simp add: parse_field_def Let_def split: option.splits)

lemma proxying_parse_fields:
  "proxying (parse_fields x st fs) = (proxying st \<or> (\<exists>f\<in>set fs. field_key f = ''proxy''))"
  by (induction fs arbitrary: st)
     (auto simp: parse_fields_Nil parse_fields_Cons proxying_parse_field)

lemma nologin_parse_fields:
  "nologin (parse_fields x st fs) = (nologin st \<or> (\<exists>f\<in>set fs. field_key f = ''nologin''))"
  by (induction fs arbitrary: st)
     (auto simp: parse_fields_Nil parse_fields_Cons nologin_parse_field)

lemma proxy_port_parse_field:
  "proxy_port (parse_field x st f) =
     (if field_key f = ''port''
      then (case net_str2port x (field_value f) of None \<Rightarrow> 0 | Some p \<Rightarrow> p)
      else proxy_port st)"
  by (simp add: parse_field_def Let_def split: option.splits)

lemma proxy_port_parse_fields_other:
  "\<forall>f\<in>set fs. field_key f \<noteq> ''port'' \<Longrightarrow> proxy_port (parse_fields x st fs) = proxy_port st"
  by (induction fs arbitrary: st)
     (simp_all add: parse_fields_Nil parse_fields_Cons proxy_port_parse_field)

lemma proxy_port_parse_fields_last:
  assumes "field_key f = ''port''" and "net_str2port x (field_value f) = None"
    and "\<forall>g\<in>set post. field_key g \<noteq> ''port''"
  shows "proxy_port (parse_fields x st (pre @ f # post)) = 0"
proof -
  have "proxy_port (parse_fields x st (pre @ f # post))
        = proxy_port (parse_field x (parse_fields x st pre) f)"
    using assms(3)
    by (simp only: parse_fields_append parse_fields_Cons proxy_port_parse_fields_other)
  then show ?thesis
    using assms(1,2) by (simp add: proxy_port_parse_field)
qed

lemma proxy_host_parse_field:
  "proxy_host (parse_field x st f) =
     (if field_key f = ''host'' then Some (field_value f) else proxy_host st)"
  by (simp add: parse_field_def Let_def split: option.splits)

lemma proxy_host_parse_fields:
  "proxy_host st \<noteq> None \<or> (\<exists>f\<in>set fs. field_key f = ''host'')
   \<Longrightarrow> proxy_host (parse_fields x st fs) \<noteq> None"
  by (induction fs arbitrary: st)
     (auto simp: parse_fields_Nil parse_fields_Cons proxy_host_parse_field)

lemma proxy_hostip_parse_field:
  "proxy_hostip (parse_field x st f) =
     (if field_key f = ''hostip'' then Some (field_value f) else proxy_hostip st)"
  by (simp add: parse_field_def Let_def split: option.splits)

lemma proxy_hostip_parse_fields:
  "\<forall>f\<in>set fs. field_key f = ''hostip'' \<longrightarrow> net_addr2ip x (field_value f) \<noteq> None
   \<Longrightarrow> proxy_hostip st = None \<or> (\<exists>h. proxy_hostip st = Some h \<and> net_addr2ip x h \<noteq> None)
   \<Longrightarrow> proxy_hostip (parse_fields x st fs) = None
       \<or> (\<exists>h. proxy_hostip (parse_fields x st fs) = Some h \<and> net_addr2ip x h \<noteq> None)"
proof (induction fs arbitrary: st)
  case Nil
  then show ?case by (simp add: parse_fields_Nil)
next
  case (Cons f fs)
  have "proxy_hostip (parse_field x st f) = None
        \<or> (\<exists>h. proxy_hostip (parse_field x st f) = Some h \<and> net_addr2ip x h \<noteq> None)"
    using Cons.prems by (auto simp: proxy_hostip_parse_field)
  with Cons.IH [of "parse_field x st f"] Cons.prems(1) show ?case
    by (simp add: parse_fields_Cons)
qed

text \<open>After a successful lookup the result is decided from the parsed fields.\<close>

lemma get_host_lookup_ok:
  assumes "doveadm_port (ctx_set ctx) \<noteq> 0"
    and "auth_master_pass_lookup x input = (n, fs)" and "0 < n"
  shows "\<exists>st0 r0. proxy_hostip st0 = None \<and> ret r0 = n \<and> referral_r r0 = None
           \<and> error_r r0 = err
           \<and> doveadm_mail_server_user_get_host x ctx input sslf hip err
               = host_decision x (parse_fields x st0 fs) r0"
proof -
  let ?ssl1 = "if doveadm_ssl (ctx_set ctx) = ''ssl'' then sslf \<union> {PROXY_SSL_FLAG_YES}
               else if doveadm_ssl (ctx_set ctx) = ''starttls''
               then sslf \<union> {PROXY_SSL_FLAG_YES, PROXY_SSL_FLAG_STARTTLS}
               else sslf"
  let ?init = "\<lparr>proxy_host = None, proxy_hostip = None, proxying = False,
               nologin = False, proxy_port = doveadm_port (ctx_set ctx),
               fields_user = username input, fields_ssl_flags = ?ssl1\<rparr>"
  let ?st = "parse_fields x ?init fs"
  let ?r0 = "\<lparr>ret = n, user_r = fields_user ?st,
              host_r = doveadm_socket_path (ctx_set ctx), hostip_r = hip,
              port_r = doveadm_port (ctx_set ctx), ssl_flags_r = fields_ssl_flags ?st,
              referral_r = None, error_r = err\<rparr>"
  have "doveadm_mail_server_user_get_host x ctx input sslf hip err = host_decision x ?st ?r0"
    using assms
    by (simp add: doveadm_mail_server_user_get_host_def Let_def split del: if_split)
  moreover have "proxy_hostip ?init = None" and "ret ?r0 = n" and "referral_r ?r0 = None"
    and "error_r ?r0 = err"
    by simp_all
  ultimately show ?thesis
    by blast
qed

lemma host_decision_proxy:
  assumes "proxying st" and "proxy_host st = Some h"
    and "proxy_hostip st = None
         \<or> (\<exists>a. proxy_hostip st = Some a \<and> net_addr2ip x a \<noteq> None)"
  shows "ret (host_decision x st r) = ret r
         \<and> referral_r (host_decision x st r) = referral_r r
         \<and> error_r (host_decision x st r) = error_r r
         \<and> port_r (host_decision x st r) = proxy_port st
         \<and> host_r (host_decision x st r) = h @ '':'' @ u2str (unat (proxy_port st))"
  using assms by (auto simp: host_decision_def Let_def split: option.splits)

text \<open>With \<open>proxy\<close> and a host among the fields, the error of an unparsable \<open>hostip\<close>
  value does reach the caller.\<close>

lemma host_decision_invalid_hostip_proxying:
  assumes "proxying st" and "proxy_host st = Some h"
    and "proxy_hostip st = Some a" and "net_addr2ip x a = None"
  shows "ret (host_decision x st r) = - 1
         \<and> error_r (host_decision x st r)
             = Some (auth_socket_path x @ '' Invalid hostip value '' @ [CHR 0x27] @ a @ [CHR 0x27])"
  using assms by (simp add: host_decision_def Let_def)

text \<open>
  C5. A successful lookup whose \<open>hostip\<close> value does not parse should make the routing
  resolution fail whatever other fields are present. The function records the error
  and sets its result to -1, and then, when \<open>proxy\<close> is absent, overwrites the result:
  for the single field \<open>hostip=nowhere\<close> it returns 0 (run locally), with the error
  message set.
\<close>

theorem get_host_invalid_hostip_not_proxying:
  "net_addr2ip (example_collaborators [''hostip=nowhere'']) ''nowhere'' = None
   \<and> fst (auth_master_pass_lookup (example_collaborators [''hostip=nowhere'']) example_input) = 1
   \<and> ret (example_get_host [''hostip=nowhere'']) = 0
   \<and> referral_r (example_get_host [''hostip=nowhere'']) = None
   \<and> error_r (example_get_host [''hostip=nowhere''])
       = Some (''/run/dovecot/auth-master Invalid hostip value ''
               @ [CHR 0x27] @ ''nowhere'' @ [CHR 0x27])"
  by (simp add: example_get_host_def example_defs get_host_defs)

text \<open>
  C6. The round-trip examples of the spec, on a lookup for user alice that succeeds:
  the fields \<open>proxy nologin=0 host=b destuser=carol port=2000\<close> give a proxy decision
  (the lookup's positive result, no referral) for the destination \<open>b:2000\<close>, whose
  hostname is \<open>b\<close>, with port 2000 and user carol; the fields \<open>nologin host=c\<close> give
  the referral \<open>alice@c\<close>; fields among which no key is \<open>proxy\<close> or \<open>nologin\<close> give
  the result 0, run locally.
\<close>

theorem get_host_round_trip:
  assumes "doveadm_port (ctx_set ctx) \<noteq> 0" and "username input = ''alice''" and "0 < n"
  shows
    "(auth_master_pass_lookup x input
        = (n, [''proxy'', ''nologin=0'', ''host=b'', ''destuser=carol'', ''port=2000''])
      \<and> net_str2port x ''2000'' = Some 2000
      \<longrightarrow> (let r = doveadm_mail_server_user_get_host x ctx input sslf hip err in
           ret r = n \<and> referral_r r = None \<and> error_r r = err \<and> host_r r = ''b:2000''
           \<and> hostname_of (host_r r) = ''b'' \<and> port_r r = 2000 \<and> user_r r = ''carol''))
     \<and> (auth_master_pass_lookup x input = (n, [''nologin'', ''host=c''])
      \<longrightarrow> (let r = doveadm_mail_server_user_get_host x ctx input sslf hip err in
           ret r = 1 \<and> referral_r r = Some ''alice@c''))
     \<and> (auth_master_pass_lookup x input = (n, fs)
        \<and> (\<forall>f\<in>set fs. field_key f \<noteq> ''proxy'' \<and> field_key f \<noteq> ''nologin'')
      \<longrightarrow> (let r = doveadm_mail_server_user_get_host x ctx input sslf hip err in
           ret r = 0 \<and> referral_r r = None))"
proof (intro conjI impI)
  assume "auth_master_pass_lookup x input
        = (n, [''proxy'', ''nologin=0'', ''host=b'', ''destuser=carol'', ''port=2000''])
      \<and> net_str2port x ''2000'' = Some 2000"
  then show "let r = doveadm_mail_server_user_get_host x ctx input sslf hip err in
           ret r = n \<and> referral_r r = None \<and> error_r r = err \<and> host_r r = ''b:2000''
           \<and> hostname_of (host_r r) = ''b'' \<and> port_r r = 2000 \<and> user_r r = ''carol''"
    using assms by (simp add: get_host_defs hostname_of_def)
next
  assume "auth_master_pass_lookup x input = (n, [''nologin'', ''host=c''])"
  then show "let r = doveadm_mail_server_user_get_host x ctx input sslf hip err in
           ret r = 1 \<and> referral_r r = Some ''alice@c''"
    using assms by (simp add: get_host_defs split: option.splits)
next
  assume h: "auth_master_pass_lookup x input = (n, fs)
        \<and> (\<forall>f\<in>set fs. field_key f \<noteq> ''proxy'' \<and> field_key f \<noteq> ''nologin'')"
  let ?init = "\<lparr>proxy_host = None, proxy_hostip = None, proxying = False,
               nologin = False, proxy_port = doveadm_port (ctx_set ctx),
               fields_user = username input,
               fields_ssl_flags =
                 (if doveadm_ssl (ctx_set ctx) = ''ssl'' then sslf \<union> {PROXY_SSL_FLAG_YES}
                  else if doveadm_ssl (ctx_set ctx) = ''starttls''
                  then sslf \<union> {PROXY_SSL_FLAG_YES, PROXY_SSL_FLAG_STARTTLS}
                  else sslf)\<rparr>"
  have p: "\<not> proxying (parse_fields x ?init fs)" and q: "\<not> nologin (parse_fields x ?init fs)"
    using h by (simp_all add: proxying_parse_fields nologin_parse_fields)
  show "let r = doveadm_mail_server_user_get_host x ctx input sslf hip err in
           ret r = 0 \<and> referral_r r = None"
    using assms h p q
    by (simp add: doveadm_mail_server_user_get_host_def host_decision_def Let_def
             split: option.splits)
qed

theorem get_host_round_trip_witness:
  "ret (example_get_host [''proxy'', ''nologin=0'', ''host=b'', ''destuser=carol'', ''port=2000'']) = 1
   \<and> host_r (example_get_host [''proxy'', ''nologin=0'', ''host=b'', ''destuser=carol'', ''port=2000''])
       = ''b:2000''
   \<and> port_r (example_get_host [''proxy'', ''nologin=0'', ''host=b'', ''destuser=carol'', ''port=2000''])
       = 2000
   \<and> user_r (example_get_host [''proxy'', ''nologin=0'', ''host=b'', ''destuser=carol'', ''port=2000''])
       = ''carol''
   \<and> referral_r (example_get_host [''nologin'', ''host=c'']) = Some ''alice@c''
   \<and> ret (example_get_host [''user=bob'', ''hostip=10.0.0.1'']) = 0"
  using
    get_host_round_trip [where ctx = example_ctx and input = example_input and n = 1
      and x = "example_collaborators
                 [''proxy'', ''nologin=0'', ''host=b'', ''destuser=carol'', ''port=2000'']"
      and fs = "[]" and sslf = "{}" and hip = ip_zero and err = None]
    get_host_round_trip [where ctx = example_ctx and input = example_input and n = 1
      and x = "example_collaborators [''nologin'', ''host=c'']"
      and fs = "[]" and sslf = "{}" and hip = ip_zero and err = None]
    get_host_round_trip [where ctx = example_ctx and input = example_input and n = 1
      and x = "example_collaborators [''user=bob'', ''hostip=10.0.0.1'']"
      and fs = "[''user=bob'', ''hostip=10.0.0.1'']"
      and sslf = "{}" and hip = ip_zero and err = None]
  by (simp add: example_get_host_def example_defs field_key_def Let_def)

text \<open>
  C9. The keys \<open>proxy\<close> and \<open>nologin\<close> count by presence alone: a field \<open>proxy=v\<close> or
  \<open>nologin=v\<close> sets the flag whatever \<open>v\<close> is and changes nothing else, exactly as the
  bare key does; so \<open>nologin=0\<close> enables nologin, and a list of fields gives the same
  parse with \<open>nologin=v\<close> (or \<open>proxy=v\<close>) as with the bare key in its place.
\<close>

theorem proxy_nologin_true_by_presence:
  "parse_field x st (''proxy='' @ v) = st\<lparr>proxying := True\<rparr>
   \<and> parse_field x st ''proxy'' = st\<lparr>proxying := True\<rparr>
   \<and> parse_field x st (''nologin='' @ v) = st\<lparr>nologin := True\<rparr>
   \<and> parse_field x st ''nologin'' = st\<lparr>nologin := True\<rparr>
   \<and> parse_field x st ''nologin=0'' = parse_field x st ''nologin''
   \<and> parse_fields x st (pre @ (''nologin='' @ v) # post)
       = parse_fields x st (pre @ ''nologin'' # post)
   \<and> parse_fields x st (pre @ (''proxy='' @ v) # post)
       = parse_fields x st (pre @ ''proxy'' # post)"
proof -
  have a: "parse_field x st (''proxy='' @ v) = st\<lparr>proxying := True\<rparr>" for st
    by (simp add: parse_field_def field_key_def Let_def)
  have b: "parse_field x st ''proxy'' = st\<lparr>proxying := True\<rparr>" for st
    by (simp add: parse_field_def field_key_def Let_def)
  have c: "parse_field x st (''nologin='' @ v) = st\<lparr>nologin := True\<rparr>" for st v
    by (simp add: parse_field_def field_key_def Let_def)
  have d: "parse_field x st ''nologin'' = st\<lparr>nologin := True\<rparr>" for st
    by (simp add: parse_field_def field_key_def Let_def)
  have e: "parse_field x st ''nologin=0'' = parse_field x st ''nologin''"
    using c [of st "''0''"] d [of st] by simp
  show ?thesis
    using e by (simp only: a b c d parse_fields_append parse_fields_Cons simp_thms)
qed

text \<open>
  C10, as stated, fails: the fields \<open>proxy host=b port=x port=2000\<close> contain \<open>proxy\<close>, a
  host and a port value that does not parse, and the resolver returns the destination
  \<open>b:2000\<close> with port 2000, because a later \<open>port\<close> field replaces the port again.
\<close>

theorem get_host_unparsable_port_counterexample:
  "net_str2port (example_collaborators [''proxy'', ''host=b'', ''port=x'', ''port=2000'']) ''x'' = None
   \<and> ret (example_get_host [''proxy'', ''host=b'', ''port=x'', ''port=2000'']) = 1
   \<and> port_r (example_get_host [''proxy'', ''host=b'', ''port=x'', ''port=2000'']) = 2000
   \<and> host_r (example_get_host [''proxy'', ''host=b'', ''port=x'', ''port=2000'']) = ''b:2000''"
  by (simp add: example_get_host_def example_defs get_host_defs)

text \<open>
  C10, amended. An unparsable \<open>port\<close> value is not reported as an error: when the
  lookup succeeds with fields that contain \<open>proxy\<close> and a \<open>host\<close>, in which the last
  \<open>port\<close> field has a value that does not parse and no \<open>hostip\<close> value fails to parse,
  the resolver returns the lookup's positive result with no referral and no new error,
  port 0, and a destination that ends in \<open>:0\<close>.
\<close>

theorem get_host_unparsable_port:
  assumes "doveadm_port (ctx_set ctx) \<noteq> 0"
    and "auth_master_pass_lookup x input = (n, pre @ f # post)" and "0 < n"
    and "field_key f = ''port''" and "net_str2port x (field_value f) = None"
    and "\<forall>g\<in>set post. field_key g \<noteq> ''port''"
    and "\<exists>g\<in>set (pre @ f # post). field_key g = ''proxy''"
    and "\<exists>g\<in>set (pre @ f # post). field_key g = ''host''"
    and "\<forall>g\<in>set (pre @ f # post).
           field_key g = ''hostip'' \<longrightarrow> net_addr2ip x (field_value g) \<noteq> None"
  shows "let r = doveadm_mail_server_user_get_host x ctx input sslf hip err in
         ret r = n \<and> referral_r r = None \<and> error_r r = err \<and> port_r r = 0
         \<and> (\<exists>h. host_r r = h @ '':0'')"
proof -
  obtain st0 r0 where st0: "proxy_hostip st0 = None"
    and r0: "ret r0 = n" "referral_r r0 = None" "error_r r0 = err"
    and eq: "doveadm_mail_server_user_get_host x ctx input sslf hip err
             = host_decision x (parse_fields x st0 (pre @ f # post)) r0"
    using get_host_lookup_ok [OF assms(1,2,3)] by blast
  let ?st = "parse_fields x st0 (pre @ f # post)"
  have p: "proxying ?st"
    using assms(7) by (simp only: proxying_parse_fields) simp
  have "proxy_host ?st \<noteq> None"
    using assms(8) by (intro proxy_host_parse_fields disjI2)
  then obtain h where h: "proxy_host ?st = Some h"
    by (cases "proxy_host ?st") simp_all
  have port: "proxy_port ?st = 0"
    using assms(4,5,6) by (rule proxy_port_parse_fields_last)
  have ip: "proxy_hostip ?st = None
            \<or> (\<exists>a. proxy_hostip ?st = Some a \<and> net_addr2ip x a \<noteq> None)"
    using proxy_hostip_parse_fields [of "pre @ f # post" x st0] assms(9) st0 by simp
  have zero: "u2str (unat (0::in_port_t)) = ''0''"
    by (simp add: u2str.simps digit_char_def)
  show ?thesis
    using host_decision_proxy [OF p h ip, of r0] r0 port zero
    by (simp add: eq Let_def)
qed

theorem get_host_unparsable_port_witness:
  "ret (example_get_host [''proxy'', ''port=2000'', ''host=b'', ''port=x'', ''hostip=10.0.0.1'']) = 1
   \<and> port_r (example_get_host [''proxy'', ''port=2000'', ''host=b'', ''port=x'', ''hostip=10.0.0.1''])
       = 0
   \<and> (\<exists>h. host_r (example_get_host
               [''proxy'', ''port=2000'', ''host=b'', ''port=x'', ''hostip=10.0.0.1''])
            = h @ '':0'')"
  using get_host_unparsable_port [where ctx = example_ctx and input = example_input and n = 1
      and x = "example_collaborators
                 [''proxy'', ''port=2000'', ''host=b'', ''port=x'', ''hostip=10.0.0.1'']"
      and pre = "[''proxy'', ''port=2000'', ''host=b'']" and f = "''port=x''"
      and post = "[''hostip=10.0.0.1'']"
      and sslf = "{}" and hip = ip_zero and err = None]
  by (simp add: example_get_host_def example_defs field_key_def field_value_def Let_def)

section \<open>Properties of the reply handler\<close>

lemmas state_defs =
  server_upd_def server_connection_cmd_def i_stream_seek_def i_stream_ref_def
  i_stream_unref_def i_error_def io_loop_stop_def doveadm_mail_server_cmd_free_def
  doveadm_server_get_def

lemma cmd_ctx_server_upd [simp]: "cmd_ctx (server_upd n f s) = cmd_ctx s"
  by (simp add: server_upd_def)

lemma cmd_ctx_server_connection_cmd [simp]:
  "cmd_ctx (server_connection_cmd conn line inp context s) = cmd_ctx s"
  by (simp add: server_connection_cmd_def)

lemma cmd_ctx_cmd_free [simp]: "cmd_ctx (doveadm_mail_server_cmd_free c s) = cmd_ctx s"
  by (simp add: doveadm_mail_server_cmd_free_def i_stream_unref_def split: option.splits)

lemma cmd_ctx_io_loop_stop [simp]: "cmd_ctx (io_loop_stop s) = cmd_ctx s"
  by (simp add: io_loop_stop_def)

lemma cmd_ctx_i_error [simp]: "cmd_ctx (i_error m s) = cmd_ctx s"
  by (simp add: i_error_def)

lemma cmd_ctx_server_get [simp]: "cmd_ctx (doveadm_server_get n s) = cmd_ctx s"
  by (simp add: doveadm_server_get_def split: option.splits)

lemma cmd_ctx_handle:
  "doveadm_mail_server_handle x conn u s = Inr s' \<Longrightarrow> cmd_ctx s' = cmd_ctx s"
  by (auto simp: doveadm_mail_server_handle_def Let_def i_stream_ref_def split: option.splits)

lemma cmd_ctx_redirect_send [simp]:
  "cmd_ctx (doveadm_cmd_redirect_send c conn s) = cmd_ctx s"
  by (simp add: doveadm_cmd_redirect_send_def Let_def i_stream_seek_def split: option.splits)

lemma cmd_ctx_create:
  "server_connection_create x n s = (res, s') \<Longrightarrow> cmd_ctx s' = cmd_ctx s"
  by (auto simp: server_connection_create_def split: option.splits)

lemma cmd_ctx_redirect:
  "doveadm_cmd_redirect x c d s = Inr (r, s') \<Longrightarrow> cmd_ctx s' = cmd_ctx s"
  by (auto simp: doveadm_cmd_redirect_def Let_def split: option.splits prod.splits sum.splits
           dest: cmd_ctx_create)

lemma cmd_ctx_finish:
  "doveadm_cmd_callback_finish x c s = Inr s' \<Longrightarrow> cmd_ctx s' = cmd_ctx s"
  by (auto simp: doveadm_cmd_callback_finish_def Let_def
           split: option.splits list.splits sum.splits dest: cmd_ctx_handle)

text \<open>The aggregation of one reply's code into the recorded exit code.\<close>

lemma callback_exit_code:
  assumes "doveadm_cmd_callback x reply c s = Inr s'" and "cmd_ctx s = Some ctx"
  shows "cmd_ctx s' = Some (ctx\<lparr>exit_code :=
           (if reply_exit_code reply = 0
               \<or> reply_exit_code reply = SERVER_EXIT_CODE_DISCONNECTED
               \<or> reply_exit_code reply = DOVEADM_EX_REFERRAL then exit_code ctx
            else if reply_exit_code reply = EX_NOUSER
            then (if exit_code ctx = 0 then EX_NOUSER else exit_code ctx)
            else if exit_code ctx = 0 \<or> reply_exit_code reply = EX_TEMPFAIL
            then reply_exit_code reply else exit_code ctx)\<rparr>)"
proof -
  obtain sv where sv: "servers s (fst (cmd_conn c)) = Some sv"
    using assms(1) by (auto simp: doveadm_cmd_callback_def split: option.splits)
  consider (ok) "reply_exit_code reply = 0"
    | (disc) "reply_exit_code reply = SERVER_EXIT_CODE_DISCONNECTED"
    | (nouser) "reply_exit_code reply = EX_NOUSER"
    | (ref) "reply_exit_code reply = DOVEADM_EX_REFERRAL"
    | (other) "reply_exit_code reply \<noteq> 0"
        "reply_exit_code reply \<noteq> SERVER_EXIT_CODE_DISCONNECTED"
        "reply_exit_code reply \<noteq> EX_NOUSER" "reply_exit_code reply \<noteq> DOVEADM_EX_REFERRAL"
    by blast
  then show ?thesis
  proof cases
    case ok
    then have "doveadm_cmd_callback_finish x c s = Inr s'"
      using assms(1) sv by (simp add: doveadm_cmd_callback_def)
    then show ?thesis
      using ok assms(2) by (simp add: cmd_ctx_finish)
  next
    case disc
    then show ?thesis
      using assms sv
      by (auto simp: doveadm_cmd_callback_def SERVER_EXIT_CODE_DISCONNECTED_def)
  next
    case nouser
    then show ?thesis
      using assms sv
      by (auto simp: doveadm_cmd_callback_def SERVER_EXIT_CODE_DISCONNECTED_def EX_NOUSER_def
            DOVEADM_EX_REFERRAL_def dest!: cmd_ctx_finish)
  next
    case ref
    then show ?thesis
      using assms sv
      by (auto simp: doveadm_cmd_callback_def SERVER_EXIT_CODE_DISCONNECTED_def EX_NOUSER_def
            DOVEADM_EX_REFERRAL_def split: sum.splits prod.splits if_splits
            dest!: cmd_ctx_redirect)
  next
    case other
    then show ?thesis
      using assms sv
      by (auto simp: doveadm_cmd_callback_def dest!: cmd_ctx_finish)
  qed
qed

lemmas example_state_defs = example_idle_def example_state_def example_server_def
  example_cmd_def example_reply_def example_collaborators_def example_ctx_def

lemmas callback_defs = doveadm_cmd_callback_def doveadm_cmd_callback_finish_def
  doveadm_mail_server_handle_def doveadm_cmd_redirect_def doveadm_cmd_redirect_send_def
  server_connection_create_def doveadm_server_find_unused_conn_def
  server_connection_is_idle_def handle_cmdline_def
  EX_NOUSER_def EX_TEMPFAIL_def SERVER_EXIT_CODE_DISCONNECTED_def DOVEADM_EX_REFERRAL_def

text \<open>With a command context and the command's server in place, the part of the
  callback after the \<^verbatim>\<open>switch\<close> returns.\<close>

lemma finish_returns:
  assumes "cmd_ctx s = Some ctx" and "servers s (fst (cmd_conn c)) = Some sv"
  shows "\<exists>s'. doveadm_cmd_callback_finish x c s = Inr s'"
proof -
  have "servers (doveadm_mail_server_cmd_free c s) (fst (cmd_conn c)) = Some sv"
    using assms(2)
    by (simp add: doveadm_mail_server_cmd_free_def i_stream_unref_def split: option.splits)
  then show ?thesis
    using assms(1)
    by (auto simp: doveadm_cmd_callback_finish_def doveadm_mail_server_handle_def Let_def
             split: list.splits option.splits)
qed

text \<open>
  C2, as stated, fails. With no code recorded, a "no such user" reply records
  \<open>EX_NOUSER\<close>; a later temporary-failure reply then replaces it by \<open>EX_TEMPFAIL\<close>: the
  \<^verbatim>\<open>default\<close> case of the \<^verbatim>\<open>switch\<close> assigns whenever the reply is \<open>EX_TEMPFAIL\<close>,
  without looking at what is recorded.
\<close>

theorem tempfail_overrides_no_such_user:
  "recorded_exit_code
     (doveadm_cmd_callbacks (example_collaborators [])
        [(example_reply EX_NOUSER, example_cmd (''a'', 0) ''alice'')] (example_idle 0))
     = Some EX_NOUSER
   \<and> recorded_exit_code
     (doveadm_cmd_callbacks (example_collaborators [])
        [(example_reply EX_NOUSER, example_cmd (''a'', 0) ''alice''),
         (example_reply EX_TEMPFAIL, example_cmd (''a'', 0) ''bob'')] (example_idle 0))
     = Some EX_TEMPFAIL
   \<and> EX_TEMPFAIL \<noteq> EX_NOUSER"
  by (simp add: recorded_exit_code_def example_state_defs callback_defs state_defs Let_def)

text \<open>
  C2, amended. A temporary-failure reply overrides every recorded code, a generic
  failure and "no such user" alike: whatever \<^verbatim>\<open>doveadm_cmd_callback\<close> has recorded,
  once it has handled an \<open>EX_TEMPFAIL\<close> reply the recorded exit code is \<open>EX_TEMPFAIL\<close>
  (and nothing else of the context has changed).
\<close>

theorem tempfail_overrides_every_code:
  assumes "reply_exit_code reply = EX_TEMPFAIL" and "cmd_ctx s = Some ctx"
    and "servers s (fst (cmd_conn c)) = Some sv"
  shows "\<exists>s'. doveadm_cmd_callback x reply c s = Inr s'
              \<and> cmd_ctx s' = Some (ctx\<lparr>exit_code := EX_TEMPFAIL\<rparr>)"
proof -
  have "\<exists>s'. doveadm_cmd_callback x reply c s = Inr s'"
    using assms finish_returns [of "s\<lparr>cmd_ctx := Some (ctx\<lparr>exit_code := EX_TEMPFAIL\<rparr>)\<rparr>" _ c sv x]
    by (simp add: doveadm_cmd_callback_def EX_TEMPFAIL_def EX_NOUSER_def
          SERVER_EXIT_CODE_DISCONNECTED_def DOVEADM_EX_REFERRAL_def)
  then obtain s' where s': "doveadm_cmd_callback x reply c s = Inr s'" ..
  have "cmd_ctx s' = Some (ctx\<lparr>exit_code := EX_TEMPFAIL\<rparr>)"
    using callback_exit_code [OF s' assms(2)] assms(1)
    by (simp add: EX_TEMPFAIL_def EX_NOUSER_def
          SERVER_EXIT_CODE_DISCONNECTED_def DOVEADM_EX_REFERRAL_def)
  with s' show ?thesis by blast
qed

theorem tempfail_overrides_every_code_witness:
  "\<exists>s'. doveadm_cmd_callback (example_collaborators []) (example_reply EX_TEMPFAIL)
           (example_cmd (''a'', 0) ''bob'') (example_idle EX_NOUSER) = Inr s'
         \<and> map_option exit_code (cmd_ctx s') = Some EX_TEMPFAIL"
  using tempfail_overrides_every_code [where reply = "example_reply EX_TEMPFAIL"
      and s = "example_idle EX_NOUSER" and ctx = "example_ctx\<lparr>exit_code := EX_NOUSER\<rparr>"
      and c = "example_cmd (''a'', 0) ''bob''"
      and sv = "example_server ''a'' [\<lparr>conn_id = 0, conn_context = None\<rparr>] []"
      and x = "example_collaborators []"]
  by (auto simp: example_idle_def example_state_def example_reply_def example_cmd_def)

lemma callbacks_keep_tempfail:
  "doveadm_cmd_callbacks x rcs s = Inr s' \<Longrightarrow> cmd_ctx s = Some ctx
   \<Longrightarrow> exit_code ctx = EX_TEMPFAIL \<Longrightarrow> cmd_ctx s' = Some ctx"
proof (induction rcs arbitrary: s)
  case Nil
  then show ?case by simp
next
  case (Cons rc rcs)
  from Cons.prems(1) obtain s1 where
    s1: "doveadm_cmd_callback x (fst rc) (snd rc) s = Inr s1"
    and rest: "doveadm_cmd_callbacks x rcs s1 = Inr s'"
    by (auto split: sum.splits)
  have "cmd_ctx s1 = Some ctx"
    using callback_exit_code [OF s1 Cons.prems(2)] Cons.prems(3)
    by (simp add: EX_TEMPFAIL_def)
  then show ?case
    using Cons.IH [OF rest] Cons.prems(3) by simp
qed

text \<open>
  C3. Once the recorded exit code is the temporary-failure code, no sequence of replies
  handled by \<^verbatim>\<open>doveadm_cmd_callback\<close> changes it (non-fatal replies or others); and a
  "no such user" reply sets the recorded code only when it is still 0, and leaves it as
  it is otherwise.
\<close>

theorem exit_code_aggregation_monotonic:
  "(doveadm_cmd_callbacks x rcs s = Inr s' \<and> cmd_ctx s = Some ctx
      \<and> exit_code ctx = EX_TEMPFAIL
    \<longrightarrow> map_option exit_code (cmd_ctx s') = Some EX_TEMPFAIL)
   \<and> (doveadm_cmd_callback x reply c s = Inr s1 \<and> cmd_ctx s = Some ctx
      \<and> reply_exit_code reply = EX_NOUSER
    \<longrightarrow> map_option exit_code (cmd_ctx s1)
          = Some (if exit_code ctx = 0 then EX_NOUSER else exit_code ctx))"
proof (intro conjI impI)
  assume "doveadm_cmd_callbacks x rcs s = Inr s' \<and> cmd_ctx s = Some ctx
      \<and> exit_code ctx = EX_TEMPFAIL"
  then show "map_option exit_code (cmd_ctx s') = Some EX_TEMPFAIL"
    using callbacks_keep_tempfail [of x rcs s s' ctx] by simp
next
  assume h: "doveadm_cmd_callback x reply c s = Inr s1 \<and> cmd_ctx s = Some ctx
      \<and> reply_exit_code reply = EX_NOUSER"
  then have "doveadm_cmd_callback x reply c s = Inr s1" and "cmd_ctx s = Some ctx"
    by simp_all
  from callback_exit_code [OF this] h
  show "map_option exit_code (cmd_ctx s1)
          = Some (if exit_code ctx = 0 then EX_NOUSER else exit_code ctx)"
    by (simp add: EX_NOUSER_def SERVER_EXIT_CODE_DISCONNECTED_def DOVEADM_EX_REFERRAL_def)
qed

theorem exit_code_aggregation_monotonic_witness:
  "recorded_exit_code
     (doveadm_cmd_callbacks (example_collaborators [])
        [(example_reply 1, example_cmd (''a'', 0) ''alice''),
         (example_reply EX_NOUSER, example_cmd (''a'', 0) ''bob''),
         (example_reply 0, example_cmd (''a'', 0) ''carol'')] (example_idle EX_TEMPFAIL))
     = Some EX_TEMPFAIL
   \<and> recorded_exit_code
     (doveadm_cmd_callback (example_collaborators []) (example_reply EX_NOUSER)
        (example_cmd (''a'', 0) ''bob'') (example_idle 0))
     = Some EX_NOUSER"
proof -
  let ?x = "example_collaborators []"
  let ?rcs = "[(example_reply 1, example_cmd (''a'', 0) ''alice''),
         (example_reply EX_NOUSER, example_cmd (''a'', 0) ''bob''),
         (example_reply 0, example_cmd (''a'', 0) ''carol'')]"
  have "\<exists>s'. doveadm_cmd_callbacks ?x ?rcs (example_idle EX_TEMPFAIL) = Inr s'"
    by (simp add: example_state_defs callback_defs state_defs Let_def)
  then obtain s' where a: "doveadm_cmd_callbacks ?x ?rcs (example_idle EX_TEMPFAIL) = Inr s'" ..
  have "\<exists>s1. doveadm_cmd_callback ?x (example_reply EX_NOUSER)
        (example_cmd (''a'', 0) ''bob'') (example_idle 0) = Inr s1"
    by (simp add: example_state_defs callback_defs state_defs Let_def)
  then obtain s1 where b: "doveadm_cmd_callback ?x (example_reply EX_NOUSER)
        (example_cmd (''a'', 0) ''bob'') (example_idle 0) = Inr s1" ..
  have c: "cmd_ctx (example_idle code) = Some (example_ctx\<lparr>exit_code := code\<rparr>)" for code
    by (simp add: example_idle_def example_state_def)
  show ?thesis
    using exit_code_aggregation_monotonic [where x = ?x and rcs = ?rcs
        and s = "example_idle EX_TEMPFAIL" and s' = s'
        and ctx = "example_ctx\<lparr>exit_code := EX_TEMPFAIL\<rparr>"]
      exit_code_aggregation_monotonic [where x = ?x and reply = "example_reply EX_NOUSER"
        and c = "example_cmd (''a'', 0) ''bob''"
        and s = "example_idle 0" and ?s1.0 = s1
        and ctx = "example_ctx\<lparr>exit_code := 0\<rparr>"]
      a b c
    by (simp add: recorded_exit_code_def example_reply_def)
qed

section \<open>Properties of redirects\<close>

text \<open>Handing a command to a connection of a server makes that connection busy with it.\<close>

lemma mark_busy_member:
  "conn \<in> set conns \<Longrightarrow>
   conn\<lparr>conn_context := Some k\<rparr>
     \<in> set (map (\<lambda>c. if conn_id c = conn_id conn then c\<lparr>conn_context := Some k\<rparr> else c) conns)"
  by (induction conns) auto

lemma redirect_send_effect:
  assumes "servers s n = Some sv"
  shows "servers (doveadm_cmd_redirect_send c (n, i) s) n
           = Some (sv\<lparr>connections :=
                map (\<lambda>k. if conn_id k = i
                          then k\<lparr>conn_context := Some (c\<lparr>cmd_conn := (n, i)\<rparr>)\<rparr> else k)
                    (connections sv)\<rparr>)
         \<and> sent (doveadm_cmd_redirect_send c (n, i) s)
           = sent s @ [\<lparr>sent_conn = (n, i), sent_line = cmdline c,
                        sent_input = map_option (\<lambda>j. (j, 0)) (cmd_istream c),
                        sent_context = c\<lparr>cmd_conn := (n, i)\<rparr>\<rparr>]
         \<and> (case cmd_istream c of
               None \<Rightarrow> stream_offset (doveadm_cmd_redirect_send c (n, i) s) = stream_offset s
             | Some j \<Rightarrow> stream_offset (doveadm_cmd_redirect_send c (n, i) s) j = 0)"
  using assms
  by (simp add: doveadm_cmd_redirect_send_def server_connection_cmd_def server_upd_def
        i_stream_seek_def Let_def split: option.splits)

lemma find_unused_conn_Some:
  "doveadm_server_find_unused_conn sv = Some conn
   \<Longrightarrow> conn \<in> set (connections sv) \<and> conn_context conn = None"
  by (auto simp: doveadm_server_find_unused_conn_def server_connection_is_idle_def
        find_Some_iff)

text \<open>The new server of a redirect, before a connection is chosen.\<close>

lemma redirect_new_server:
  "\<exists>new. servers (server_upd d (\<lambda>sv. sv\<lparr>ip := a, ssl_flags := fl, port := p\<rparr>)
                      (doveadm_server_get d s)) d = Some new
         \<and> ip new = a \<and> ssl_flags new = fl \<and> port new = p"
  by (simp add: server_upd_def doveadm_server_get_def split: option.splits)

lemma redirect_unfold:
  assumes "servers s (fst (cmd_conn c)) = Some orig"
    and "auth_proxy_parse_redirect x d = Some (destuser, host, a, p)"
    and "q = (if p \<noteq> 0 then p else port orig)"
    and "s2 = server_upd d (\<lambda>sv. sv\<lparr>ip := a, ssl_flags := ssl_flags orig, port := q\<rparr>)
                (doveadm_server_get d s)"
    and "servers s2 d = Some new"
  shows "doveadm_cmd_redirect x c d s =
       (case doveadm_server_find_unused_conn new of
          Some conn \<Rightarrow> Inr (0, doveadm_cmd_redirect_send c (d, conn_id conn) s2)
        | None \<Rightarrow>
           (case server_connection_create x d s2 of
              (Inl err, s3) \<Rightarrow>
                 Inr (- 1, i_error (name new
                        @ '': Failed to create redirect connection: '' @ err) s3)
            | (Inr k, s3) \<Rightarrow> Inr (0, doveadm_cmd_redirect_send c (d, k) s3)))"
proof -
  have "servers (server_upd d (\<lambda>sv. sv\<lparr>ip := a, ssl_flags := ssl_flags orig,
                   port := (if p \<noteq> 0 then p else port orig)\<rparr>)
                (doveadm_server_get d s)) d = Some new"
    using assms(5) unfolding assms(4) assms(3) .
  then show ?thesis
    unfolding assms(4) assms(3) using assms(1,2)
    by (simp add: doveadm_cmd_redirect_def Let_def)
qed

text \<open>
  C4. When the reply to a pending command is a referral whose destination parses and
  the redirect succeeds (\<^verbatim>\<open>doveadm_cmd_redirect\<close> returns 0), the callback returns the
  state the redirect left, in which: the server named by the destination has the
  original server's TLS flags, the redirect's port when that is nonzero and the
  original server's port otherwise, and the redirect's address; one of its connections
  is busy with the command, now bound to that connection; the last call of
  \<^verbatim>\<open>server_connection_cmd\<close> is for that connection, with the command's own line and
  its stream at offset 0; and the stream, if there is one, is at offset 0 whatever
  its offset was.
\<close>

theorem redirect_resends_command:
  assumes "reply_exit_code reply = DOVEADM_EX_REFERRAL"
    and "servers s (fst (cmd_conn c)) = Some orig"
    and "auth_proxy_parse_redirect x (reply_error reply) = Some (destuser, host, a, p)"
    and "doveadm_cmd_redirect x c (reply_error reply) s = Inr (0, s')"
  shows "doveadm_cmd_callback x reply c s = Inr s'
         \<and> (\<exists>new conn.
               servers s' (reply_error reply) = Some new
               \<and> ssl_flags new = ssl_flags orig
               \<and> port new = (if p \<noteq> 0 then p else port orig)
               \<and> ip new = a
               \<and> conn \<in> set (connections new)
               \<and> conn_context conn = Some (c\<lparr>cmd_conn := (reply_error reply, conn_id conn)\<rparr>)
               \<and> sent s' = sent s
                   @ [\<lparr>sent_conn = (reply_error reply, conn_id conn), sent_line = cmdline c,
                       sent_input = map_option (\<lambda>j. (j, 0)) (cmd_istream c),
                       sent_context = c\<lparr>cmd_conn := (reply_error reply, conn_id conn)\<rparr>\<rparr>]
               \<and> (case cmd_istream c of
                     None \<Rightarrow> stream_offset s' = stream_offset s
                   | Some j \<Rightarrow> stream_offset s' j = 0))"
proof -
  let ?d = "reply_error reply"
  define q where "q = (if p \<noteq> 0 then p else port orig)"
  define s2 where "s2 = server_upd ?d
               (\<lambda>sv. sv\<lparr>ip := a, ssl_flags := ssl_flags orig, port := q\<rparr>)
               (doveadm_server_get ?d s)"
  have cb: "doveadm_cmd_callback x reply c s = Inr s'"
    using assms(1,2,4)
    by (simp add: doveadm_cmd_callback_def DOVEADM_EX_REFERRAL_def EX_NOUSER_def
          SERVER_EXIT_CODE_DISCONNECTED_def)
  obtain new where new: "servers s2 ?d = Some new" "ip new = a"
      "ssl_flags new = ssl_flags orig" "port new = q"
    unfolding s2_def
    using redirect_new_server [where d = ?d and a = a and fl = "ssl_flags orig"
        and p = q and s = s]
    by blast
  have s2: "sent s2 = sent s" "stream_offset s2 = stream_offset s"
    by (simp_all add: s2_def server_upd_def doveadm_server_get_def split: option.splits)
  have red: "doveadm_cmd_redirect x c ?d s =
       (case doveadm_server_find_unused_conn new of
          Some conn \<Rightarrow> Inr (0, doveadm_cmd_redirect_send c (?d, conn_id conn) s2)
        | None \<Rightarrow>
           (case server_connection_create x ?d s2 of
              (Inl err, s3) \<Rightarrow>
                 Inr (- 1, i_error (name new
                        @ '': Failed to create redirect connection: '' @ err) s3)
            | (Inr k, s3) \<Rightarrow> Inr (0, doveadm_cmd_redirect_send c (?d, k) s3)))"
    using assms(2,3) q_def s2_def new(1) by (rule redirect_unfold)
  have goal: "\<exists>new conn.
               servers s' ?d = Some new
               \<and> ssl_flags new = ssl_flags orig \<and> port new = q \<and> ip new = a
               \<and> conn \<in> set (connections new)
               \<and> conn_context conn = Some (c\<lparr>cmd_conn := (?d, conn_id conn)\<rparr>)
               \<and> sent s' = sent s
                   @ [\<lparr>sent_conn = (?d, conn_id conn), sent_line = cmdline c,
                       sent_input = map_option (\<lambda>j. (j, 0)) (cmd_istream c),
                       sent_context = c\<lparr>cmd_conn := (?d, conn_id conn)\<rparr>\<rparr>]
               \<and> (case cmd_istream c of
                     None \<Rightarrow> stream_offset s' = stream_offset s
                   | Some j \<Rightarrow> stream_offset s' j = 0)"
  proof (cases "doveadm_server_find_unused_conn new")
    case (Some conn)
    then have s': "s' = doveadm_cmd_redirect_send c (?d, conn_id conn) s2"
      using red assms(4) by simp
    have mem: "conn \<in> set (connections new)"
      using Some by (simp add: find_unused_conn_Some)
    let ?conn = "conn\<lparr>conn_context := Some (c\<lparr>cmd_conn := (?d, conn_id conn)\<rparr>)\<rparr>"
    let ?new = "new\<lparr>connections :=
                  map (\<lambda>k. if conn_id k = conn_id conn
                            then k\<lparr>conn_context := Some (c\<lparr>cmd_conn := (?d, conn_id conn)\<rparr>)\<rparr>
                            else k) (connections new)\<rparr>"
    have "?conn \<in> set (connections ?new)"
      using mark_busy_member [OF mem] by simp
    then show ?thesis
      using redirect_send_effect [OF new(1), of c "conn_id conn"] new(2,3,4) s' s2
      apply (intro exI [of _ ?new] exI [of _ ?conn])
      apply (simp split: option.splits)
      done
  next
    case None
    then have cr: "connect_error x ?d = None"
      using red assms(4)
      by (auto simp: server_connection_create_def split: option.splits)
    define k where "k = next_conn_id s2"
    define s3 where "s3 = server_upd ?d
             (\<lambda>server. server\<lparr>connections := connections server
                 @ [\<lparr>conn_id = k, conn_context = None\<rparr>]\<rparr>)
             (s2\<lparr>next_conn_id := Suc k\<rparr>)"
    have create: "server_connection_create x ?d s2 = (Inr k, s3)"
      using cr by (simp add: server_connection_create_def k_def s3_def)
    then have s': "s' = doveadm_cmd_redirect_send c (?d, k) s3"
      using red assms(4) None by simp
    let ?new1 = "new\<lparr>connections := connections new @ [\<lparr>conn_id = k, conn_context = None\<rparr>]\<rparr>"
    have new1: "servers s3 ?d = Some ?new1"
      using new(1) by (simp add: server_upd_def s3_def)
    let ?conn = "\<lparr>conn_id = k, conn_context = Some (c\<lparr>cmd_conn := (?d, k)\<rparr>)\<rparr>"
    let ?new = "?new1\<lparr>connections :=
                  map (\<lambda>j. if conn_id j = k
                            then j\<lparr>conn_context := Some (c\<lparr>cmd_conn := (?d, k)\<rparr>)\<rparr>
                            else j) (connections ?new1)\<rparr>"
    have s3: "sent s3 = sent s" "stream_offset s3 = stream_offset s"
      using s2 by (simp_all add: s3_def server_upd_def)
    have "?conn \<in> set (connections ?new)"
      by simp
    then show ?thesis
      using redirect_send_effect [OF new1, of c k] new(2,3,4) s' s3
      apply (intro exI [of _ ?new] exI [of _ ?conn])
      apply (simp split: option.splits)
      done
  qed
  show ?thesis
    using cb goal unfolding q_def by blast
qed

lemmas example_two_defs = example_two_servers_def example_state_def example_server_def
  example_cmd_def example_reply_def example_collaborators_def example_ctx_def

lemma connection_count_connection_cmd:
  "connection_count (Inr (server_connection_cmd conn line inp k s)) n
   = connection_count (Inr s) n"
  by (cases "servers s (fst conn)")
     (simp_all add: connection_count_def server_connection_cmd_def server_upd_def)

lemma connection_count_handle:
  "doveadm_mail_server_handle x conn u s = Inr s'
   \<Longrightarrow> connection_count (Inr s') n = connection_count (Inr s) n"
  by (auto simp: doveadm_mail_server_handle_def Let_def connection_count_connection_cmd
        split: option.splits)
     (simp_all add: connection_count_def i_stream_ref_def)

text \<open>\<^verbatim>\<open>doveadm_mail_server_user\<close> keeps the worker limit where it hands the command to
  a connection: it uses an idle connection, or creates one only below the limit.\<close>

lemma user_dispatch_respects_worker_limit:
  assumes "doveadm_mail_server_user_dispatch x io_loop_run fuel ctx r s0 = Inr (rc, e, s')"
    and "servers s0 (host_r r) = Some sv"
    and "doveadm_server_find_unused_conn sv \<noteq> None
         \<or> length (connections sv) < max (doveadm_worker_count (ctx_set ctx)) 1"
    and "length (connections sv) \<le> max (doveadm_worker_count (ctx_set ctx)) 1"
  shows "\<exists>k. connection_count (Inr s') (host_r r) = Some k
              \<and> k \<le> max (doveadm_worker_count (ctx_set ctx)) 1"
proof -
  have c0: "connection_count (Inr s0) (host_r r) = Some (length (connections sv))"
    using assms(2) by (simp add: connection_count_def)
  show ?thesis
  proof (cases "doveadm_server_find_unused_conn sv")
    case (Some conn)
    then obtain s1 where "doveadm_mail_server_handle x (host_r r, conn_id conn) (user_r r) s0
                          = Inr s1" and "s' = s1"
      using assms(1,2)
      by (auto simp: doveadm_mail_server_user_dispatch_def doveadm_mail_server_user_return_def
            split: sum.splits)
    then show ?thesis
      using c0 assms(4) by (simp add: connection_count_handle)
  next
    case None
    then have below: "length (connections sv) < max (doveadm_worker_count (ctx_set ctx)) 1"
      using assms(3) by simp
    show ?thesis
    proof (cases "connect_error x (host_r r)")
      case (Some err)
      then have "s' = s0\<lparr>internal_failure := True\<rparr>"
        using assms(1,2) None below
        by (simp add: doveadm_mail_server_user_dispatch_def server_connection_create_def)
      then have "connection_count (Inr s') (host_r r) = Some (length (connections sv))"
        using assms(2) by (simp add: connection_count_def)
      then show ?thesis
        using assms(4) by simp
    next
      case no_error: None
      let ?s1 = "server_upd (host_r r)
             (\<lambda>server. server\<lparr>connections := connections server
                 @ [\<lparr>conn_id = next_conn_id s0, conn_context = None\<rparr>]\<rparr>)
             (s0\<lparr>next_conn_id := Suc (next_conn_id s0)\<rparr>)"
      have "\<exists>s2. doveadm_mail_server_handle x (host_r r, next_conn_id s0) (user_r r) ?s1
                   = Inr s2 \<and> s' = s2"
        using assms(1,2) None below no_error
        by (auto simp: doveadm_mail_server_user_dispatch_def server_connection_create_def
              doveadm_mail_server_user_return_def split: sum.splits)
      then have "connection_count (Inr s') (host_r r) = connection_count (Inr ?s1) (host_r r)"
        by (auto simp: connection_count_handle)
      also have "\<dots> = Some (Suc (length (connections sv)))"
        using assms(2) by (simp add: connection_count_def server_upd_def)
      finally show ?thesis
        using below by simp
    qed
  qed
qed

text \<open>
  C1. The number of connections of a server should never exceed the worker limit.
  \<^verbatim>\<open>doveadm_mail_server_user\<close> creates a connection only below the limit (lemma
  \<open>user_dispatch_respects_worker_limit\<close>); \<^verbatim>\<open>doveadm_cmd_redirect\<close> creates one
  whenever the new server has no idle connection.
  With a worker limit of 1 and server \<open>b\<close> holding one busy connection, a referral to
  \<open>b\<close> leaves \<open>b\<close> with two connections.
\<close>

theorem redirect_exceeds_worker_limit:
  "max (doveadm_worker_count (ctx_set example_ctx)) 1 = 1
   \<and> connection_count (Inr (example_two_servers [])) ''a'' = Some 1
   \<and> connection_count (Inr (example_two_servers [])) ''b'' = Some 1
   \<and> connection_count
       (doveadm_cmd_callback (example_collaborators []) (example_reply DOVEADM_EX_REFERRAL)
          (example_cmd (''a'', 0) ''alice'') (example_two_servers [])) ''b'' = Some 2"
  by (simp add: connection_count_def example_two_defs callback_defs state_defs Let_def)

theorem redirect_resends_command_witness:
  "\<exists>s' new. doveadm_cmd_callback (example_collaborators []) (example_reply DOVEADM_EX_REFERRAL)
          (example_cmd (''a'', 0) ''alice'') (example_two_servers []) = Inr s'
     \<and> servers s' ''b'' = Some new
     \<and> ssl_flags new = {PROXY_SSL_FLAG_YES} \<and> port new = 24245
     \<and> ip new = Ip_addr 2 [10, 0, 0, 2]
     \<and> sent_line (last (sent s')) = cmdline (example_cmd (''a'', 0) ''alice'')
     \<and> sent_input (last (sent s')) = Some (0, 0)
     \<and> stream_offset (example_two_servers []) 0 = 100 \<and> stream_offset s' 0 = 0"
proof -
  let ?x = "example_collaborators []"
  let ?c = "example_cmd (''a'', 0) ''alice''"
  let ?s = "example_two_servers []"
  let ?orig = "example_server ''a'' [\<lparr>conn_id = 0, conn_context = None\<rparr>] []"
  have "\<exists>s'. doveadm_cmd_redirect ?x ?c ''b'' ?s = Inr (0, s')"
    by (simp add: example_two_defs callback_defs state_defs Let_def)
  then obtain s' where r: "doveadm_cmd_redirect ?x ?c ''b'' ?s = Inr (0, s')" ..
  have a: "reply_exit_code (example_reply DOVEADM_EX_REFERRAL) = DOVEADM_EX_REFERRAL"
    "reply_error (example_reply DOVEADM_EX_REFERRAL) = ''b''"
    by (simp_all add: example_reply_def)
  have b: "servers ?s (fst (cmd_conn ?c)) = Some ?orig"
    by (simp add: example_two_servers_def example_state_def example_cmd_def)
  have c: "auth_proxy_parse_redirect ?x ''b'' = Some ([], ''b'', Ip_addr 2 [10, 0, 0, 2], 0)"
    by (simp add: example_collaborators_def)
  have d: "stream_offset ?s 0 = 100" "cmd_istream ?c = Some 0"
    "ssl_flags ?orig = {PROXY_SSL_FLAG_YES}" "port ?orig = 24245"
    by (simp_all add: example_two_servers_def example_state_def example_cmd_def
          example_server_def)
  show ?thesis
    using redirect_resends_command [where reply = "example_reply DOVEADM_EX_REFERRAL"
        and s = ?s and c = ?c and orig = ?orig and x = ?x and s' = s'
        and destuser = "[]" and host = "''b''" and a = "Ip_addr 2 [10, 0, 0, 2]" and p = 0]
      a b c d r
    by auto
qed

section \<open>Properties of the queue\<close>

text \<open>The part of the callback after the \<^verbatim>\<open>switch\<close> either leaves servers and
  sent commands as they are, or pops the first username of the queue and hands its
  command to the first idle connection.\<close>

lemma finish_step:
  assumes "doveadm_cmd_callback_finish x c s = Inr s'"
  shows "(servers s' = servers s \<and> sent s' = sent s)
         \<or> (\<exists>sv u rest conn ctx.
               servers s (fst (cmd_conn c)) = Some sv \<and> queue sv = u # rest
               \<and> doveadm_server_find_unused_conn sv = Some conn
               \<and> cmd_ctx s = Some ctx
               \<and> servers s' = (servers s)(fst (cmd_conn c) \<mapsto>
                    sv\<lparr>queue := rest,
                       connections :=
                         map (\<lambda>k. if conn_id k = conn_id conn
                                   then k\<lparr>conn_context := Some
                                          \<lparr>cmd_conn = (fst (cmd_conn c), conn_id conn),
                                           cmd_username = u,
                                           cmdline = handle_cmdline x ctx u,
                                           cmd_istream = cmd_input ctx\<rparr>\<rparr>
                                   else k) (connections sv)\<rparr>)
               \<and> sent s' = sent s
                   @ [\<lparr>sent_conn = (fst (cmd_conn c), conn_id conn),
                       sent_line = handle_cmdline x ctx u,
                       sent_input = map_option (\<lambda>i. (i, stream_offset s i)) (cmd_input ctx),
                       sent_context =
                         \<lparr>cmd_conn = (fst (cmd_conn c), conn_id conn), cmd_username = u,
                          cmdline = handle_cmdline x ctx u, cmd_istream = cmd_input ctx\<rparr>\<rparr>])"
proof -
  let ?n = "fst (cmd_conn c)"
  define s1 where "s1 = doveadm_mail_server_cmd_free c s"
  have s1: "servers s1 = servers s" "sent s1 = sent s" "cmd_ctx s1 = cmd_ctx s"
    "stream_offset s1 = stream_offset s"
    by (simp_all add: s1_def doveadm_mail_server_cmd_free_def i_stream_unref_def
          split: option.splits)
  obtain sv where sv: "servers s ?n = Some sv"
    using assms s1(1)
    by (auto simp: doveadm_cmd_callback_finish_def Let_def s1_def [symmetric]
          split: option.splits)
  show ?thesis
  proof (cases "queue sv")
    case Nil
    then have "s' = io_loop_stop s1"
      using assms sv s1(1)
      by (simp add: doveadm_cmd_callback_finish_def Let_def s1_def [symmetric])
    then show ?thesis
      using s1 by (simp add: io_loop_stop_def)
  next
    case (Cons u rest)
    show ?thesis
    proof (cases "doveadm_server_find_unused_conn sv")
      case None
      then have "s' = io_loop_stop s1"
        using assms sv s1(1) Cons
        by (simp add: doveadm_cmd_callback_finish_def Let_def s1_def [symmetric])
      then show ?thesis
        using s1 by (simp add: io_loop_stop_def)
    next
      case (Some conn)
      then have h: "(case doveadm_mail_server_handle x (?n, conn_id conn) u
                       (server_upd ?n (\<lambda>sv. sv\<lparr>queue := rest\<rparr>) s1) of
                       Inl f \<Rightarrow> Inl f | Inr s2 \<Rightarrow> Inr (io_loop_stop s2)) = Inr s'"
        using assms sv s1(1) Cons
        by (simp add: doveadm_cmd_callback_finish_def Let_def s1_def [symmetric])
      then obtain ctx where ctx: "cmd_ctx s = Some ctx"
        using s1(3)
        by (cases "cmd_ctx s") (auto simp: doveadm_mail_server_handle_def)
      have "servers s' = (servers s)(?n \<mapsto>
                    sv\<lparr>queue := rest,
                       connections :=
                         map (\<lambda>k. if conn_id k = conn_id conn
                                   then k\<lparr>conn_context := Some
                                          \<lparr>cmd_conn = (?n, conn_id conn),
                                           cmd_username = u,
                                           cmdline = handle_cmdline x ctx u,
                                           cmd_istream = cmd_input ctx\<rparr>\<rparr>
                                   else k) (connections sv)\<rparr>)"
        using h ctx s1 sv
        by (auto simp: doveadm_mail_server_handle_def Let_def server_connection_cmd_def
              server_upd_def i_stream_ref_def io_loop_stop_def split: option.splits)
      moreover have "sent s' = sent s
                   @ [\<lparr>sent_conn = (?n, conn_id conn),
                       sent_line = handle_cmdline x ctx u,
                       sent_input = map_option (\<lambda>i. (i, stream_offset s i)) (cmd_input ctx),
                       sent_context =
                         \<lparr>cmd_conn = (?n, conn_id conn), cmd_username = u,
                          cmdline = handle_cmdline x ctx u, cmd_istream = cmd_input ctx\<rparr>\<rparr>]"
        using h ctx s1 sv
        by (auto simp: doveadm_mail_server_handle_def Let_def server_connection_cmd_def
              server_upd_def i_stream_ref_def io_loop_stop_def split: option.splits)
      ultimately show ?thesis
        using sv Cons Some ctx by blast
    qed
  qed
qed

text \<open>A reply that completes a command (neither a disconnect nor a referral) reaches the
  part after the \<^verbatim>\<open>switch\<close> with the servers, the sent commands and the streams as they
  were, and with a command context that differs at most in its exit code.\<close>

lemma callback_completion:
  assumes "reply_exit_code reply \<noteq> SERVER_EXIT_CODE_DISCONNECTED"
    and "reply_exit_code reply \<noteq> DOVEADM_EX_REFERRAL"
    and "doveadm_cmd_callback x reply c s = Inr s'"
  shows "\<exists>s0. doveadm_cmd_callback_finish x c s0 = Inr s'
           \<and> servers s0 = servers s \<and> sent s0 = sent s \<and> stream_offset s0 = stream_offset s
           \<and> (cmd_ctx s0 = cmd_ctx s
               \<or> (\<exists>ctx e. cmd_ctx s = Some ctx \<and> cmd_ctx s0 = Some (ctx\<lparr>exit_code := e\<rparr>)))"
proof -
  obtain sv where sv: "servers s (fst (cmd_conn c)) = Some sv"
    using assms(3) by (auto simp: doveadm_cmd_callback_def split: option.splits)
  consider (ok) "reply_exit_code reply = 0"
    | (nouser) "reply_exit_code reply \<noteq> 0" "reply_exit_code reply = EX_NOUSER"
    | (other) "reply_exit_code reply \<noteq> 0" "reply_exit_code reply \<noteq> EX_NOUSER"
    by blast
  then show ?thesis
  proof cases
    case ok
    then have "doveadm_cmd_callback_finish x c s = Inr s'"
      using assms(3) sv by (simp add: doveadm_cmd_callback_def)
    then show ?thesis by blast
  next
    case nouser
    then obtain ctx where ctx: "cmd_ctx s = Some ctx"
      using assms sv by (cases "cmd_ctx s") (auto simp: doveadm_cmd_callback_def)
    let ?s0 = "(i_error (name sv @ '': No such user: '' @ cmd_username c) s)
                 \<lparr>cmd_ctx := Some (if exit_code ctx = 0
                                    then ctx\<lparr>exit_code := EX_NOUSER\<rparr> else ctx)\<rparr>"
    have "doveadm_cmd_callback_finish x c ?s0 = Inr s'"
      using assms nouser sv ctx by (simp add: doveadm_cmd_callback_def)
    moreover have "servers ?s0 = servers s" "sent ?s0 = sent s"
      "stream_offset ?s0 = stream_offset s"
      by (simp_all add: i_error_def)
    moreover have "\<exists>e. cmd_ctx ?s0 = Some (ctx\<lparr>exit_code := e\<rparr>)"
      by (cases "exit_code ctx = 0") (auto intro: exI [of _ "exit_code ctx"])
    ultimately show ?thesis
      using ctx by blast
  next
    case other
    then obtain ctx where ctx: "cmd_ctx s = Some ctx"
      using assms sv by (cases "cmd_ctx s") (auto simp: doveadm_cmd_callback_def)
    let ?s0 = "s\<lparr>cmd_ctx := Some (if exit_code ctx = 0 \<or> reply_exit_code reply = EX_TEMPFAIL
                                    then ctx\<lparr>exit_code := reply_exit_code reply\<rparr>
                                    else ctx)\<rparr>"
    have "doveadm_cmd_callback_finish x c ?s0 = Inr s'"
      using assms other sv ctx by (simp add: doveadm_cmd_callback_def)
    moreover have "servers ?s0 = servers s" "sent ?s0 = sent s"
      "stream_offset ?s0 = stream_offset s"
      by simp_all
    moreover have "\<exists>e. cmd_ctx ?s0 = Some (ctx\<lparr>exit_code := e\<rparr>)"
      by (cases "exit_code ctx = 0 \<or> reply_exit_code reply = EX_TEMPFAIL")
         (auto intro: exI [of _ "exit_code ctx"])
    ultimately show ?thesis
      using ctx by blast
  qed
qed

text \<open>One completing reply takes nothing or the first username from the queue of its
  server, and leaves every other queue alone.\<close>

lemma callback_fifo_step:
  assumes "reply_exit_code reply \<noteq> SERVER_EXIT_CODE_DISCONNECTED"
    and "reply_exit_code reply \<noteq> DOVEADM_EX_REFERRAL"
    and "doveadm_cmd_callback x reply c s = Inr s1"
    and "servers s n = Some sv"
  shows "\<exists>sv1 k new. servers s1 n = Some sv1 \<and> queue sv1 = drop k (queue sv)
           \<and> sent s1 = sent s @ new
           \<and> map (\<lambda>e. cmd_username (sent_context e))
                 (filter (\<lambda>e. fst (sent_conn e) = n) new) = take k (queue sv)"
proof -
  obtain s0 where s0: "doveadm_cmd_callback_finish x c s0 = Inr s1"
    "servers s0 = servers s" "sent s0 = sent s"
    using callback_completion [OF assms(1,2,3)] by blast
  from finish_step [OF s0(1)] show ?thesis
  proof
    assume "servers s1 = servers s0 \<and> sent s1 = sent s0"
    then have "servers s1 n = Some sv \<and> queue sv = drop 0 (queue sv)
           \<and> sent s1 = sent s @ []
           \<and> map (\<lambda>e. cmd_username (sent_context e))
                 (filter (\<lambda>e. fst (sent_conn e) = n) []) = take 0 (queue sv)"
      using s0(2,3) assms(4) by simp
    then show ?thesis by blast
  next
    assume "\<exists>svm u rest conn ctx.
               servers s0 (fst (cmd_conn c)) = Some svm \<and> queue svm = u # rest
               \<and> doveadm_server_find_unused_conn svm = Some conn
               \<and> cmd_ctx s0 = Some ctx
               \<and> servers s1 = (servers s0)(fst (cmd_conn c) \<mapsto>
                    svm\<lparr>queue := rest,
                       connections :=
                         map (\<lambda>k. if conn_id k = conn_id conn
                                   then k\<lparr>conn_context := Some
                                          \<lparr>cmd_conn = (fst (cmd_conn c), conn_id conn),
                                           cmd_username = u,
                                           cmdline = handle_cmdline x ctx u,
                                           cmd_istream = cmd_input ctx\<rparr>\<rparr>
                                   else k) (connections svm)\<rparr>)
               \<and> sent s1 = sent s0
                   @ [\<lparr>sent_conn = (fst (cmd_conn c), conn_id conn),
                       sent_line = handle_cmdline x ctx u,
                       sent_input = map_option (\<lambda>i. (i, stream_offset s0 i)) (cmd_input ctx),
                       sent_context =
                         \<lparr>cmd_conn = (fst (cmd_conn c), conn_id conn), cmd_username = u,
                          cmdline = handle_cmdline x ctx u, cmd_istream = cmd_input ctx\<rparr>\<rparr>]"
    then obtain svm u rest svm' e where
      m: "servers s0 (fst (cmd_conn c)) = Some svm" "queue svm = u # rest"
        "servers s1 = (servers s0)(fst (cmd_conn c) \<mapsto> svm')" "queue svm' = rest"
        "sent s1 = sent s0 @ [e]" "fst (sent_conn e) = fst (cmd_conn c)"
        "cmd_username (sent_context e) = u"
      by force
    show ?thesis
    proof (cases "fst (cmd_conn c) = n")
      case True
      then have "servers s1 n = Some svm' \<and> queue svm' = drop 1 (queue sv)
           \<and> sent s1 = sent s @ [e]
           \<and> map (\<lambda>e. cmd_username (sent_context e))
                 (filter (\<lambda>e. fst (sent_conn e) = n) [e]) = take 1 (queue sv)"
        using m s0(2,3) assms(4) by simp
      then show ?thesis by blast
    next
      case False
      then have "servers s1 n = Some sv \<and> queue sv = drop 0 (queue sv)
           \<and> sent s1 = sent s @ [e]
           \<and> map (\<lambda>e. cmd_username (sent_context e))
                 (filter (\<lambda>e. fst (sent_conn e) = n) [e]) = take 0 (queue sv)"
        using m s0(2,3) assms(4) by simp
      then show ?thesis by blast
    qed
  qed
qed

lemma dispatched_on_append [simp]:
  "dispatched_on n (xs @ ys) = dispatched_on n xs @ dispatched_on n ys"
  by (simp add: dispatched_on_def)

text \<open>The usernames dispatched from a server's queue followed by those still queued are
  the usernames that were queued at the start followed by those appended since.\<close>

lemma queue_events_fifo:
  assumes "queue_events x es s = Inr s'" and "list_all completes es"
    and "servers s n = Some sv"
  shows "\<exists>sv' new. servers s' n = Some sv' \<and> sent s' = sent s @ new
           \<and> dispatched_on n new @ queue sv' = queue sv @ enqueued_on n es"
  using assms
proof (induction es arbitrary: s sv)
  case Nil
  then have "servers s' n = Some sv \<and> sent s' = sent s @ []
           \<and> dispatched_on n [] @ queue sv = queue sv @ enqueued_on n []"
    by (simp add: dispatched_on_def)
  then show ?case by blast
next
  case (Cons e es)
  show ?case
  proof (cases e)
    case (Reply reply c)
    from Cons.prems(1) Reply obtain s1 where
      s1: "doveadm_cmd_callback x reply c s = Inr s1"
      and rest: "queue_events x es s1 = Inr s'"
      by (auto split: sum.splits)
    have compl: "reply_exit_code reply \<noteq> SERVER_EXIT_CODE_DISCONNECTED"
      "reply_exit_code reply \<noteq> DOVEADM_EX_REFERRAL"
      using Cons.prems(2) Reply by simp_all
    obtain sv1 k new1 where
      one: "servers s1 n = Some sv1" "queue sv1 = drop k (queue sv)"
        "sent s1 = sent s @ new1"
        "map (\<lambda>e. cmd_username (sent_context e))
                 (filter (\<lambda>e. fst (sent_conn e) = n) new1) = take k (queue sv)"
      using callback_fifo_step [OF compl s1 Cons.prems(3)] by blast
    have d1: "dispatched_on n new1 @ queue sv1 = queue sv"
      using one(2,4) by (simp add: dispatched_on_def)
    have "list_all completes es"
      using Cons.prems(2) by simp
    from Cons.IH [OF rest this one(1)] obtain sv' new2 where
      two: "servers s' n = Some sv'" "sent s' = sent s1 @ new2"
        "dispatched_on n new2 @ queue sv' = queue sv1 @ enqueued_on n es"
      by blast
    have "dispatched_on n (new1 @ new2) @ queue sv'
          = dispatched_on n new1 @ (dispatched_on n new2 @ queue sv')"
      by simp
    also have "\<dots> = (dispatched_on n new1 @ queue sv1) @ enqueued_on n es"
      by (simp only: two(3) append_assoc)
    also have "\<dots> = queue sv @ enqueued_on n (e # es)"
      using Reply by (simp only: d1 enqueued_on.simps)
    finally have "dispatched_on n (new1 @ new2) @ queue sv'
                  = queue sv @ enqueued_on n (e # es)" .
    then have "servers s' n = Some sv' \<and> sent s' = sent s @ (new1 @ new2)
           \<and> dispatched_on n (new1 @ new2) @ queue sv' = queue sv @ enqueued_on n (e # es)"
      using one(3) two(1,2) by simp
    then show ?thesis by blast
  next
    case (Enqueue m user)
    let ?s1 = "doveadm_server_queue_push m user s"
    let ?sv1 = "if m = n then sv\<lparr>queue := queue sv @ [user]\<rparr> else sv"
    have rest: "queue_events x es ?s1 = Inr s'"
      using Cons.prems(1) Enqueue by simp
    have sv1: "servers ?s1 n = Some ?sv1" and sent1: "sent ?s1 = sent s"
      using Cons.prems(3) by (auto simp: doveadm_server_queue_push_def server_upd_def)
    have "list_all completes es"
      using Cons.prems(2) by simp
    from Cons.IH [OF rest this sv1] obtain sv' new where
      two: "servers s' n = Some sv'" "sent s' = sent ?s1 @ new"
        "dispatched_on n new @ queue sv' = queue ?sv1 @ enqueued_on n es"
      by blast
    have "dispatched_on n new @ queue sv' = queue sv @ enqueued_on n (e # es)"
      using two(3) Enqueue by (cases "m = n") simp_all
    then show ?thesis
      using two(1,2) sent1 by auto
  next
    case (Idle conn)
    let ?s1 = "server_connection_set_idle conn s"
    have rest: "queue_events x es ?s1 = Inr s'"
      using Cons.prems(1) Idle by simp
    have "\<exists>sv1. servers ?s1 n = Some sv1 \<and> queue sv1 = queue sv"
      using Cons.prems(3) by (auto simp: server_connection_set_idle_def server_upd_def)
    then obtain sv1 where sv1: "servers ?s1 n = Some sv1" "queue sv1 = queue sv"
      by blast
    have sent1: "sent ?s1 = sent s"
      by (simp add: server_connection_set_idle_def server_upd_def)
    have "list_all completes es"
      using Cons.prems(2) by simp
    from Cons.IH [OF rest this sv1(1)] obtain sv' new where
      two: "servers s' n = Some sv'" "sent s' = sent ?s1 @ new"
        "dispatched_on n new @ queue sv' = queue sv1 @ enqueued_on n es"
      by blast
    then show ?thesis
      using sv1(2) sent1 Idle by auto
  qed
qed

text \<open>With a command context, a queued username and an idle connection, the part after
  the \<^verbatim>\<open>switch\<close> pops the first username and hands its command to the first idle
  connection.\<close>

lemma finish_pop:
  assumes "cmd_ctx s = Some ctx" and "servers s (fst (cmd_conn c)) = Some sv"
    and "queue sv = u # rest" and "doveadm_server_find_unused_conn sv = Some conn"
  shows "\<exists>s'. doveadm_cmd_callback_finish x c s = Inr s'
           \<and> servers s' = (servers s)(fst (cmd_conn c) \<mapsto>
                    sv\<lparr>queue := rest,
                       connections :=
                         map (\<lambda>k. if conn_id k = conn_id conn
                                   then k\<lparr>conn_context := Some
                                          \<lparr>cmd_conn = (fst (cmd_conn c), conn_id conn),
                                           cmd_username = u,
                                           cmdline = handle_cmdline x ctx u,
                                           cmd_istream = cmd_input ctx\<rparr>\<rparr>
                                   else k) (connections sv)\<rparr>)
           \<and> sent s' = sent s
                   @ [\<lparr>sent_conn = (fst (cmd_conn c), conn_id conn),
                       sent_line = handle_cmdline x ctx u,
                       sent_input = map_option (\<lambda>i. (i, stream_offset s i)) (cmd_input ctx),
                       sent_context =
                         \<lparr>cmd_conn = (fst (cmd_conn c), conn_id conn), cmd_username = u,
                          cmdline = handle_cmdline x ctx u, cmd_istream = cmd_input ctx\<rparr>\<rparr>]"
proof -
  obtain s' where s': "doveadm_cmd_callback_finish x c s = Inr s'"
    using finish_returns [OF assms(1,2)] by blast
  from finish_step [OF s'] show ?thesis
  proof
    assume "servers s' = servers s \<and> sent s' = sent s"
    moreover have "doveadm_cmd_callback_finish x c s \<noteq> Inr s'"
      if "sent s' = sent s"
      using assms that
      by (auto simp: doveadm_cmd_callback_finish_def doveadm_mail_server_handle_def
            Let_def doveadm_mail_server_cmd_free_def i_stream_unref_def i_stream_ref_def
            server_connection_cmd_def server_upd_def io_loop_stop_def
            split: option.splits)
    ultimately show ?thesis
      using s' by blast
  next
    assume "\<exists>sv u rest conn ctx.
               servers s (fst (cmd_conn c)) = Some sv \<and> queue sv = u # rest
               \<and> doveadm_server_find_unused_conn sv = Some conn
               \<and> cmd_ctx s = Some ctx
               \<and> servers s' = (servers s)(fst (cmd_conn c) \<mapsto>
                    sv\<lparr>queue := rest,
                       connections :=
                         map (\<lambda>k. if conn_id k = conn_id conn
                                   then k\<lparr>conn_context := Some
                                          \<lparr>cmd_conn = (fst (cmd_conn c), conn_id conn),
                                           cmd_username = u,
                                           cmdline = handle_cmdline x ctx u,
                                           cmd_istream = cmd_input ctx\<rparr>\<rparr>
                                   else k) (connections sv)\<rparr>)
               \<and> sent s' = sent s
                   @ [\<lparr>sent_conn = (fst (cmd_conn c), conn_id conn),
                       sent_line = handle_cmdline x ctx u,
                       sent_input = map_option (\<lambda>i. (i, stream_offset s i)) (cmd_input ctx),
                       sent_context =
                         \<lparr>cmd_conn = (fst (cmd_conn c), conn_id conn), cmd_username = u,
                          cmdline = handle_cmdline x ctx u, cmd_istream = cmd_input ctx\<rparr>\<rparr>]"
    then show ?thesis
      using assms s' by auto
  qed
qed

text \<open>A completing reply reaches the part after the \<^verbatim>\<open>switch\<close>.\<close>

lemma callback_completion_finish:
  assumes "reply_exit_code reply \<noteq> SERVER_EXIT_CODE_DISCONNECTED"
    and "reply_exit_code reply \<noteq> DOVEADM_EX_REFERRAL"
    and "cmd_ctx s = Some ctx" and "servers s (fst (cmd_conn c)) = Some sv"
  shows "\<exists>s0 e. doveadm_cmd_callback x reply c s = doveadm_cmd_callback_finish x c s0
           \<and> servers s0 = servers s \<and> sent s0 = sent s \<and> stream_offset s0 = stream_offset s
           \<and> cmd_ctx s0 = Some (ctx\<lparr>exit_code := e\<rparr>)"
proof -
  consider (ok) "reply_exit_code reply = 0"
    | (nouser) "reply_exit_code reply \<noteq> 0" "reply_exit_code reply = EX_NOUSER"
    | (other) "reply_exit_code reply \<noteq> 0" "reply_exit_code reply \<noteq> EX_NOUSER"
    by blast
  then show ?thesis
  proof cases
    case ok
    then have "doveadm_cmd_callback x reply c s = doveadm_cmd_callback_finish x c s"
      using assms(4) by (simp add: doveadm_cmd_callback_def)
    moreover have "cmd_ctx s = Some (ctx\<lparr>exit_code := exit_code ctx\<rparr>)"
      using assms(3) by simp
    ultimately show ?thesis by blast
  next
    case nouser
    let ?s0 = "(i_error (name sv @ '': No such user: '' @ cmd_username c) s)
                 \<lparr>cmd_ctx := Some (if exit_code ctx = 0
                                    then ctx\<lparr>exit_code := EX_NOUSER\<rparr> else ctx)\<rparr>"
    have "doveadm_cmd_callback x reply c s = doveadm_cmd_callback_finish x c ?s0"
      using assms nouser by (simp add: doveadm_cmd_callback_def)
    moreover have "servers ?s0 = servers s" "sent ?s0 = sent s"
      "stream_offset ?s0 = stream_offset s"
      by (simp_all add: i_error_def)
    moreover have "\<exists>e. cmd_ctx ?s0 = Some (ctx\<lparr>exit_code := e\<rparr>)"
      by (cases "exit_code ctx = 0") (auto intro: exI [of _ "exit_code ctx"])
    ultimately show ?thesis by blast
  next
    case other
    let ?s0 = "s\<lparr>cmd_ctx := Some (if exit_code ctx = 0 \<or> reply_exit_code reply = EX_TEMPFAIL
                                    then ctx\<lparr>exit_code := reply_exit_code reply\<rparr>
                                    else ctx)\<rparr>"
    have "doveadm_cmd_callback x reply c s = doveadm_cmd_callback_finish x c ?s0"
      using assms other by (simp add: doveadm_cmd_callback_def)
    moreover have "servers ?s0 = servers s" "sent ?s0 = sent s"
      "stream_offset ?s0 = stream_offset s"
      by simp_all
    moreover have "\<exists>e. cmd_ctx ?s0 = Some (ctx\<lparr>exit_code := e\<rparr>)"
      by (cases "exit_code ctx = 0 \<or> reply_exit_code reply = EX_TEMPFAIL")
         (auto intro: exI [of _ "exit_code ctx"])
    ultimately show ?thesis by blast
  qed
qed

lemma callback_pop:
  assumes "reply_exit_code reply \<noteq> SERVER_EXIT_CODE_DISCONNECTED"
    and "reply_exit_code reply \<noteq> DOVEADM_EX_REFERRAL"
    and "cmd_ctx s = Some ctx" and "servers s (fst (cmd_conn c)) = Some sv"
    and "queue sv = u # rest" and "doveadm_server_find_unused_conn sv = Some conn"
  shows "\<exists>s' sv'. doveadm_cmd_callback x reply c s = Inr s'
           \<and> servers s' (fst (cmd_conn c)) = Some sv' \<and> queue sv' = rest
           \<and> conn\<lparr>conn_context := Some \<lparr>cmd_conn = (fst (cmd_conn c), conn_id conn),
                                         cmd_username = u,
                                         cmdline = handle_cmdline x ctx u,
                                         cmd_istream = cmd_input ctx\<rparr>\<rparr>
               \<in> set (connections sv')
           \<and> sent s' = sent s
                   @ [\<lparr>sent_conn = (fst (cmd_conn c), conn_id conn),
                       sent_line = handle_cmdline x ctx u,
                       sent_input = map_option (\<lambda>i. (i, stream_offset s i)) (cmd_input ctx),
                       sent_context =
                         \<lparr>cmd_conn = (fst (cmd_conn c), conn_id conn), cmd_username = u,
                          cmdline = handle_cmdline x ctx u, cmd_istream = cmd_input ctx\<rparr>\<rparr>]"
proof -
  obtain s0 e where s0: "doveadm_cmd_callback x reply c s = doveadm_cmd_callback_finish x c s0"
    "servers s0 = servers s" "sent s0 = sent s" "stream_offset s0 = stream_offset s"
    "cmd_ctx s0 = Some (ctx\<lparr>exit_code := e\<rparr>)"
    using callback_completion_finish [OF assms(1,2,3,4)] by blast
  have sv0: "servers s0 (fst (cmd_conn c)) = Some sv"
    using assms(4) s0(2) by simp
  have line: "handle_cmdline x (ctx\<lparr>exit_code := e\<rparr>) u = handle_cmdline x ctx u"
    by (simp add: handle_cmdline_def)
  have inp: "cmd_input (ctx\<lparr>exit_code := e\<rparr>) = cmd_input ctx"
    by simp
  have mem: "conn \<in> set (connections sv)"
    using assms(6) by (simp add: find_unused_conn_Some)
  obtain s' where s': "doveadm_cmd_callback_finish x c s0 = Inr s'"
    "servers s' = (servers s0)(fst (cmd_conn c) \<mapsto>
                    sv\<lparr>queue := rest,
                       connections :=
                         map (\<lambda>k. if conn_id k = conn_id conn
                                   then k\<lparr>conn_context := Some
                                          \<lparr>cmd_conn = (fst (cmd_conn c), conn_id conn),
                                           cmd_username = u,
                                           cmdline = handle_cmdline x ctx u,
                                           cmd_istream = cmd_input ctx\<rparr>\<rparr>
                                   else k) (connections sv)\<rparr>)"
    "sent s' = sent s0
                   @ [\<lparr>sent_conn = (fst (cmd_conn c), conn_id conn),
                       sent_line = handle_cmdline x ctx u,
                       sent_input = map_option (\<lambda>i. (i, stream_offset s0 i)) (cmd_input ctx),
                       sent_context =
                         \<lparr>cmd_conn = (fst (cmd_conn c), conn_id conn), cmd_username = u,
                          cmdline = handle_cmdline x ctx u, cmd_istream = cmd_input ctx\<rparr>\<rparr>]"
    using finish_pop [OF s0(5) sv0 assms(5,6), of x] unfolding line inp by blast
  let ?cmd = "\<lparr>cmd_conn = (fst (cmd_conn c), conn_id conn), cmd_username = u,
               cmdline = handle_cmdline x ctx u, cmd_istream = cmd_input ctx\<rparr>"
  let ?sv' = "sv\<lparr>queue := rest,
                 connections :=
                   map (\<lambda>k. if conn_id k = conn_id conn
                             then k\<lparr>conn_context := Some ?cmd\<rparr> else k) (connections sv)\<rparr>"
  have a: "doveadm_cmd_callback x reply c s = Inr s'"
    using s0(1) s'(1) by simp
  have b: "servers s' (fst (cmd_conn c)) = Some ?sv'"
    using s'(2) by simp
  have d: "queue ?sv' = rest"
    by simp
  have e: "conn\<lparr>conn_context := Some ?cmd\<rparr> \<in> set (connections ?sv')"
    using mark_busy_member [OF mem, of ?cmd] by simp
  have f: "sent s' = sent s
                   @ [\<lparr>sent_conn = (fst (cmd_conn c), conn_id conn),
                       sent_line = handle_cmdline x ctx u,
                       sent_input = map_option (\<lambda>i. (i, stream_offset s i)) (cmd_input ctx),
                       sent_context = ?cmd\<rparr>]"
    using s'(3) s0(3,4) by simp
  from a b d e f show ?thesis
    by blast
qed

text \<open>
  C8. The queue of a server is served first in, first out. When the callback handles a
  reply that completes a command (any code but the disconnect and the referral code)
  while the queue of the command's server is not empty and the server has an idle
  connection, it returns with exactly the first username of the queue removed, with
  the first idle connection busy with that username's command, and with that command
  as the last one sent. And over any history of completed replies, appended usernames
  and connections becoming idle, the usernames dispatched on a server followed by
  those still in its queue are the usernames queued at the start followed by those
  appended since, in this order: a username queued before another is dispatched no
  later than the other.
\<close>

theorem queue_is_served_first_in_first_out:
  "(reply_exit_code reply \<noteq> SERVER_EXIT_CODE_DISCONNECTED
      \<and> reply_exit_code reply \<noteq> DOVEADM_EX_REFERRAL
      \<and> cmd_ctx s = Some ctx \<and> servers s (fst (cmd_conn c)) = Some sv
      \<and> queue sv = u # rest \<and> doveadm_server_find_unused_conn sv = Some conn
    \<longrightarrow> (\<exists>s' sv'. doveadm_cmd_callback x reply c s = Inr s'
           \<and> servers s' (fst (cmd_conn c)) = Some sv' \<and> queue sv' = rest
           \<and> conn\<lparr>conn_context := Some \<lparr>cmd_conn = (fst (cmd_conn c), conn_id conn),
                                         cmd_username = u,
                                         cmdline = handle_cmdline x ctx u,
                                         cmd_istream = cmd_input ctx\<rparr>\<rparr>
               \<in> set (connections sv')
           \<and> sent s' = sent s
                   @ [\<lparr>sent_conn = (fst (cmd_conn c), conn_id conn),
                       sent_line = handle_cmdline x ctx u,
                       sent_input = map_option (\<lambda>i. (i, stream_offset s i)) (cmd_input ctx),
                       sent_context =
                         \<lparr>cmd_conn = (fst (cmd_conn c), conn_id conn), cmd_username = u,
                          cmdline = handle_cmdline x ctx u, cmd_istream = cmd_input ctx\<rparr>\<rparr>]))
   \<and> (queue_events x es s = Inr s2 \<and> list_all completes es \<and> servers s n = Some sv0
    \<longrightarrow> (\<exists>sv2 new. servers s2 n = Some sv2 \<and> sent s2 = sent s @ new
           \<and> dispatched_on n new @ queue sv2 = queue sv0 @ enqueued_on n es))"
proof (intro conjI impI)
  assume "reply_exit_code reply \<noteq> SERVER_EXIT_CODE_DISCONNECTED
      \<and> reply_exit_code reply \<noteq> DOVEADM_EX_REFERRAL
      \<and> cmd_ctx s = Some ctx \<and> servers s (fst (cmd_conn c)) = Some sv
      \<and> queue sv = u # rest \<and> doveadm_server_find_unused_conn sv = Some conn"
  then have "reply_exit_code reply \<noteq> SERVER_EXIT_CODE_DISCONNECTED"
    "reply_exit_code reply \<noteq> DOVEADM_EX_REFERRAL"
    "cmd_ctx s = Some ctx" "servers s (fst (cmd_conn c)) = Some sv"
    "queue sv = u # rest" "doveadm_server_find_unused_conn sv = Some conn"
    by simp_all
  then show "\<exists>s' sv'. doveadm_cmd_callback x reply c s = Inr s'
           \<and> servers s' (fst (cmd_conn c)) = Some sv' \<and> queue sv' = rest
           \<and> conn\<lparr>conn_context := Some \<lparr>cmd_conn = (fst (cmd_conn c), conn_id conn),
                                         cmd_username = u,
                                         cmdline = handle_cmdline x ctx u,
                                         cmd_istream = cmd_input ctx\<rparr>\<rparr>
               \<in> set (connections sv')
           \<and> sent s' = sent s
                   @ [\<lparr>sent_conn = (fst (cmd_conn c), conn_id conn),
                       sent_line = handle_cmdline x ctx u,
                       sent_input = map_option (\<lambda>i. (i, stream_offset s i)) (cmd_input ctx),
                       sent_context =
                         \<lparr>cmd_conn = (fst (cmd_conn c), conn_id conn), cmd_username = u,
                          cmdline = handle_cmdline x ctx u, cmd_istream = cmd_input ctx\<rparr>\<rparr>]"
    by (rule callback_pop)
next
  assume "queue_events x es s = Inr s2 \<and> list_all completes es \<and> servers s n = Some sv0"
  then have "queue_events x es s = Inr s2" "list_all completes es" "servers s n = Some sv0"
    by simp_all
  then show "\<exists>sv2 new. servers s2 n = Some sv2 \<and> sent s2 = sent s @ new
           \<and> dispatched_on n new @ queue sv2 = queue sv0 @ enqueued_on n es"
    by (rule queue_events_fifo)
qed

theorem queue_is_served_first_in_first_out_witness:
  "(\<exists>s' sv'. doveadm_cmd_callback (example_collaborators []) (example_reply 0)
                (example_cmd (''a'', 0) ''alice'') (example_two_servers [''dave'', ''erin''])
              = Inr s'
            \<and> servers s' ''a'' = Some sv' \<and> queue sv' = [''erin'']
            \<and> dispatched_on ''a'' (sent s') = [''dave''])
   \<and> (\<exists>s2 sv2 new.
         queue_events (example_collaborators [])
           [Enqueue ''a'' ''frank'',
            Reply (example_reply 0) (example_cmd (''a'', 0) ''alice''),
            Idle (''a'', 0),
            Reply (example_reply 1) (example_cmd (''a'', 0) ''dave'')]
           (example_two_servers [''dave'', ''erin'']) = Inr s2
         \<and> servers s2 ''a'' = Some sv2 \<and> sent s2 = new
         \<and> dispatched_on ''a'' new @ queue sv2 = [''dave'', ''erin'', ''frank''])"
proof -
  let ?x = "example_collaborators []"
  let ?s = "example_two_servers [''dave'', ''erin'']"
  let ?c = "example_cmd (''a'', 0) ''alice''"
  let ?es = "[Enqueue ''a'' ''frank'',
            Reply (example_reply 0) (example_cmd (''a'', 0) ''alice''),
            Idle (''a'', 0),
            Reply (example_reply 1) (example_cmd (''a'', 0) ''dave'')]"
  let ?sv = "example_server ''a'' [\<lparr>conn_id = 0, conn_context = None\<rparr>] [''dave'', ''erin'']"
  have sv: "servers ?s ''a'' = Some ?sv" "cmd_ctx ?s = Some (example_ctx\<lparr>exit_code := 0\<rparr>)"
    "sent ?s = []" "fst (cmd_conn ?c) = ''a''"
    by (simp_all add: example_two_servers_def example_state_def example_cmd_def)
  have q: "queue ?sv = ''dave'' # [''erin'']"
    "doveadm_server_find_unused_conn ?sv = Some \<lparr>conn_id = 0, conn_context = None\<rparr>"
    by (simp_all add: example_server_def doveadm_server_find_unused_conn_def
          server_connection_is_idle_def)
  have r: "reply_exit_code (example_reply 0) \<noteq> SERVER_EXIT_CODE_DISCONNECTED"
    "reply_exit_code (example_reply 0) \<noteq> DOVEADM_EX_REFERRAL"
    by (simp_all add: example_reply_def SERVER_EXIT_CODE_DISCONNECTED_def
          DOVEADM_EX_REFERRAL_def)
  have "\<exists>s2. queue_events ?x ?es ?s = Inr s2"
    by (simp add: example_two_defs callback_defs state_defs Let_def
          doveadm_server_queue_push_def server_connection_set_idle_def)
  then obtain s2 where s2: "queue_events ?x ?es ?s = Inr s2" ..
  have compl: "list_all completes ?es"
    by (simp add: example_reply_def SERVER_EXIT_CODE_DISCONNECTED_def DOVEADM_EX_REFERRAL_def)
  have enq: "enqueued_on ''a'' ?es = [''frank'']"
    by simp
  note thm1 = queue_is_served_first_in_first_out
      [where reply = "example_reply 0" and s = ?s and c = ?c and sv = ?sv and x = ?x
        and ctx = "example_ctx\<lparr>exit_code := 0\<rparr>" and u = "''dave''" and rest = "[''erin'']"
        and conn = "\<lparr>conn_id = 0, conn_context = None\<rparr>"
        and es = ?es and ?s2.0 = s2 and n = "''a''" and ?sv0.0 = ?sv,
       THEN conjunct1, rule_format]
  note thm2 = queue_is_served_first_in_first_out
      [where reply = "example_reply 0" and s = ?s and c = ?c and sv = ?sv and x = ?x
        and ctx = "example_ctx\<lparr>exit_code := 0\<rparr>" and u = "''dave''" and rest = "[''erin'']"
        and conn = "\<lparr>conn_id = 0, conn_context = None\<rparr>"
        and es = ?es and ?s2.0 = s2 and n = "''a''" and ?sv0.0 = ?sv,
       THEN conjunct2, rule_format]
  have one: "\<exists>s' sv'. doveadm_cmd_callback ?x (example_reply 0) ?c ?s = Inr s'
            \<and> servers s' ''a'' = Some sv' \<and> queue sv' = [''erin'']
            \<and> dispatched_on ''a'' (sent s') = [''dave'']"
    using thm1 r sv q by (auto simp: dispatched_on_def)
  have two: "\<exists>sv2 new. servers s2 ''a'' = Some sv2 \<and> sent s2 = new
         \<and> dispatched_on ''a'' new @ queue sv2 = [''dave'', ''erin'', ''frank'']"
    using thm2 s2 compl sv(1,3) q(1) enq by auto
  show ?thesis
    using one two s2 by blast
qed

section \<open>Properties of dispatching\<close>

lemma server_queue_server_upd:
  "(\<And>sv. queue (f sv) = queue sv) \<Longrightarrow> server_queue (server_upd h f s) n = server_queue s n"
  by (simp add: server_queue_def server_upd_def split: option.splits)

lemma server_queue_server_get: "server_queue (doveadm_server_get h s) n = server_queue s n"
  by (simp add: server_queue_def doveadm_server_get_def split: option.splits)

lemma server_queue_user_server:
  "server_queue (doveadm_mail_server_user_server r s) n = server_queue s n"
proof -
  have "server_queue (doveadm_mail_server_user_server r s) n
        = server_queue (doveadm_server_get (host_r r) (s\<lparr>sticky_headers := False\<rparr>)) n"
    unfolding doveadm_mail_server_user_server_def by (rule server_queue_server_upd) simp
  also have "\<dots> = server_queue (s\<lparr>sticky_headers := False\<rparr>) n"
    by (rule server_queue_server_get)
  also have "\<dots> = server_queue s n"
    by (simp add: server_queue_def)
  finally show ?thesis .
qed

lemma server_queue_connection_cmd:
  "server_queue (server_connection_cmd conn line inp k s) n = server_queue s n"
proof -
  have "server_queue (server_connection_cmd conn line inp k s) n
        = server_queue (s\<lparr>sent := sent s
            @ [\<lparr>sent_conn = conn, sent_line = line,
                sent_input = map_option (\<lambda>i. (i, stream_offset s i)) inp,
                sent_context = k\<rparr>]\<rparr>) n"
    unfolding server_connection_cmd_def by (rule server_queue_server_upd) simp
  then show ?thesis
    by (simp add: server_queue_def)
qed

lemma server_queue_handle:
  "doveadm_mail_server_handle x conn u s = Inr s' \<Longrightarrow> server_queue s' n = server_queue s n"
  by (auto simp: doveadm_mail_server_handle_def Let_def server_queue_connection_cmd
        split: option.splits)
     (simp_all add: server_queue_def i_stream_ref_def)

lemma server_queue_create:
  "server_connection_create x h s = (res, s') \<Longrightarrow> server_queue s' n = server_queue s n"
proof (cases "connect_error x h")
  case None
  assume "server_connection_create x h s = (res, s')"
  then have "s' = server_upd h
             (\<lambda>server. server\<lparr>connections := connections server
                 @ [\<lparr>conn_id = next_conn_id s, conn_context = None\<rparr>]\<rparr>)
             (s\<lparr>next_conn_id := Suc (next_conn_id s)\<rparr>)"
    using None by (simp add: server_connection_create_def)
  then have "server_queue s' n = server_queue (s\<lparr>next_conn_id := Suc (next_conn_id s)\<rparr>) n"
    by (simp add: server_queue_server_upd)
  then show ?thesis
    by (simp add: server_queue_def)
next
  case (Some a)
  assume "server_connection_create x h s = (res, s')"
  then show ?thesis
    using Some by (simp add: server_connection_create_def)
qed

text \<open>From the choice of a connection on, \<^verbatim>\<open>doveadm_mail_server_user\<close> either leaves
  every queue as it is, or appends the username to the queue of its server, after
  \<^verbatim>\<open>doveadm_server_flush_one\<close> if the queue was full.\<close>

lemma dispatch_queue:
  assumes "doveadm_mail_server_user_dispatch x io_loop_run fuel ctx r s0 = Inr (rc, e, s')"
  shows "(\<forall>n. server_queue s' n = server_queue s0 n)
         \<or> (\<exists>s1. (if DOVEADM_SERVER_QUEUE_MAX \<le> length (server_queue s0 (host_r r))
                  then doveadm_server_flush_one io_loop_run fuel (host_r r) s0 = Inr s1
                  else s1 = s0)
               \<and> s' = doveadm_server_queue_push (host_r r) (user_r r) s1)"
proof -
  obtain sv where sv: "servers s0 (host_r r) = Some sv"
    using assms by (auto simp: doveadm_mail_server_user_dispatch_def split: option.splits)
  then have q: "server_queue s0 (host_r r) = queue sv"
    by (simp add: server_queue_def)
  show ?thesis
  proof (cases "doveadm_server_find_unused_conn sv")
    case (Some conn)
    then obtain s1 where "doveadm_mail_server_handle x (host_r r, conn_id conn) (user_r r) s0
                          = Inr s1" and "s' = s1"
      using assms sv
      by (auto simp: doveadm_mail_server_user_dispatch_def doveadm_mail_server_user_return_def
            split: sum.splits)
    then show ?thesis
      by (simp add: server_queue_handle)
  next
    case None
    show ?thesis
    proof (cases "length (connections sv) < max (doveadm_worker_count (ctx_set ctx)) 1")
      case True
      obtain res s1 where cr: "server_connection_create x (host_r r) s0 = (res, s1)"
        by (cases "server_connection_create x (host_r r) s0")
      have q1: "server_queue s1 n = server_queue s0 n" for n
        using cr by (rule server_queue_create)
      show ?thesis
      proof (cases res)
        case (Inl err)
        then have "s' = s1\<lparr>internal_failure := True\<rparr>"
          using assms sv None True cr
          by (simp add: doveadm_mail_server_user_dispatch_def)
        then show ?thesis
          using q1 by (simp add: server_queue_def)
      next
        case (Inr k)
        then obtain s2 where "doveadm_mail_server_handle x (host_r r, k) (user_r r) s1 = Inr s2"
          and "s' = s2"
          using assms sv None True cr
          by (auto simp: doveadm_mail_server_user_dispatch_def
                doveadm_mail_server_user_return_def split: sum.splits)
        then show ?thesis
          using q1 by (simp add: server_queue_handle)
      qed
    next
      case False
      then have "\<exists>s1. (if DOVEADM_SERVER_QUEUE_MAX \<le> length (queue sv)
                  then doveadm_server_flush_one io_loop_run fuel (host_r r) s0 = Inr s1
                  else s1 = s0)
               \<and> s' = doveadm_server_queue_push (host_r r) (user_r r) s1"
        using assms sv None
        by (auto simp: doveadm_mail_server_user_dispatch_def
              doveadm_mail_server_user_return_def split: sum.splits if_splits)
      then show ?thesis
        using q by simp
    qed
  qed
qed

text \<open>
  C7. A username is appended to a queue only when the queue is below its maximum of 16,
  or after a drain. Whenever \<^verbatim>\<open>doveadm_mail_server_user\<close> returns, either every queue
  is as it was, or the username has been appended to the queue of the server chosen
  by the routing result; in that case, if the function found that queue with 16 or
  more entries, \<^verbatim>\<open>doveadm_server_flush_one\<close> ran on the server first and returned the
  state to which the username was then appended, and otherwise the username was
  appended at once.
\<close>

theorem username_queued_below_maximum_or_after_flush:
  assumes "doveadm_mail_server_user x io_loop_run fuel ctx input err s = Inr (rc, e, s')"
  shows "let r = doveadm_mail_server_user_get_host x ctx input {} ip_zero err;
             s0 = doveadm_mail_server_user_server r (s\<lparr>cmd_ctx := Some ctx\<rparr>)
         in (\<forall>n. server_queue s' n = server_queue s n)
            \<or> (\<exists>s1. (if DOVEADM_SERVER_QUEUE_MAX \<le> length (server_queue s (host_r r))
                     then doveadm_server_flush_one io_loop_run fuel (host_r r) s0 = Inr s1
                     else s1 = s0)
                  \<and> s' = doveadm_server_queue_push (host_r r) (user_r r) s1)"
proof -
  define r where "r = doveadm_mail_server_user_get_host x ctx input {} ip_zero err"
  define s0 where "s0 = doveadm_mail_server_user_server r (s\<lparr>cmd_ctx := Some ctx\<rparr>)"
  have q0: "server_queue s0 n = server_queue s n" for n
    by (simp add: s0_def server_queue_user_server) (simp add: server_queue_def)
  have "(\<forall>n. server_queue s' n = server_queue s n)
        \<or> doveadm_mail_server_user_dispatch x io_loop_run fuel ctx r s0 = Inr (rc, e, s')"
    using assms
    by (auto simp: doveadm_mail_server_user_def Let_def r_def [symmetric] s0_def [symmetric]
          server_queue_def split: if_splits option.splits)
  then have "(\<forall>n. server_queue s' n = server_queue s n)
            \<or> (\<exists>s1. (if DOVEADM_SERVER_QUEUE_MAX \<le> length (server_queue s (host_r r))
                     then doveadm_server_flush_one io_loop_run fuel (host_r r) s0 = Inr s1
                     else s1 = s0)
                  \<and> s' = doveadm_server_queue_push (host_r r) (user_r r) s1)"
  proof
    assume "\<forall>n. server_queue s' n = server_queue s n"
    then show ?thesis by blast
  next
    assume "doveadm_mail_server_user_dispatch x io_loop_run fuel ctx r s0 = Inr (rc, e, s')"
    from dispatch_queue [OF this] show ?thesis
      unfolding q0 .
  qed
  then show ?thesis
    unfolding Let_def r_def s0_def .
qed

text \<open>The example: the queue is full, the drain answers one command, which lets the
  first queued username out, and alice is appended.\<close>

lemma example_user_returns:
  "\<exists>s'. example_user = Inr (1, Some ''doveadm server failure'', s')
        \<and> server_queue s' ''b:2000''
            = [''u02'', ''u03'', ''u04'', ''u05'', ''u06'', ''u07'', ''u08'',
               ''u09'', ''u10'', ''u11'', ''u12'', ''u13'', ''u14'', ''u15'', ''u16'', ''alice'']"
  by (simp add: example_user_def doveadm_mail_server_user_def
        doveadm_mail_server_user_dispatch_def doveadm_mail_server_user_server_def
        doveadm_mail_server_user_return_def doveadm_server_flush_one_def
        doveadm_server_have_used_connections_def DOVEADM_MAIL_SERVER_FAILED_def
        DOVEADM_SERVER_QUEUE_MAX_def doveadm_server_queue_push_def server_queue_def
        example_io_loop_run_def server_connection_set_idle_def
        example_full_queue_def example_state_def example_server_def example_cmd_def
        example_reply_def example_collaborators_def example_ctx_def example_input_def
        get_host_defs callback_defs state_defs ip_zero_def)

theorem username_queued_below_maximum_or_after_flush_witness:
  "\<exists>s' s1. example_user = Inr (1, Some ''doveadm server failure'', s')
     \<and> DOVEADM_SERVER_QUEUE_MAX \<le> length (server_queue example_full_queue ''b:2000'')
     \<and> doveadm_server_flush_one example_io_loop_run 1 ''b:2000''
         (doveadm_mail_server_user_server
            (example_get_host [''proxy'', ''host=b'', ''port=2000''])
            (example_full_queue\<lparr>cmd_ctx := Some (example_ctx\<lparr>exit_code := 0\<rparr>)\<rparr>)) = Inr s1
     \<and> s' = doveadm_server_queue_push ''b:2000'' ''alice'' s1"
proof -
  let ?x = "example_collaborators [''proxy'', ''host=b'', ''port=2000'']"
  let ?ctx = "example_ctx\<lparr>exit_code := 0\<rparr>"
  let ?r = "doveadm_mail_server_user_get_host ?x ?ctx example_input {} ip_zero None"
  obtain s' where s': "example_user = Inr (1, Some ''doveadm server failure'', s')"
    and q': "server_queue s' ''b:2000''
            = [''u02'', ''u03'', ''u04'', ''u05'', ''u06'', ''u07'', ''u08'',
               ''u09'', ''u10'', ''u11'', ''u12'', ''u13'', ''u14'', ''u15'', ''u16'', ''alice'']"
    using example_user_returns by blast
  have q: "server_queue example_full_queue ''b:2000''
            = [''u01'', ''u02'', ''u03'', ''u04'', ''u05'', ''u06'', ''u07'', ''u08'',
               ''u09'', ''u10'', ''u11'', ''u12'', ''u13'', ''u14'', ''u15'', ''u16'']"
    by (simp add: server_queue_def example_full_queue_def example_state_def example_server_def)
  have r: "?r = example_get_host [''proxy'', ''host=b'', ''port=2000'']"
    by (simp add: example_get_host_def example_ctx_def)
  have hr: "host_r ?r = ''b:2000''" "user_r ?r = ''alice''"
    by (simp_all add: example_defs get_host_defs)
  have full: "DOVEADM_SERVER_QUEUE_MAX \<le> length (server_queue example_full_queue ''b:2000'')"
    by (simp add: q DOVEADM_SERVER_QUEUE_MAX_def)
  have "(\<forall>n. server_queue s' n = server_queue example_full_queue n)
        \<or> (\<exists>s1. (if DOVEADM_SERVER_QUEUE_MAX
                      \<le> length (server_queue example_full_queue (host_r ?r))
                   then doveadm_server_flush_one example_io_loop_run 1 (host_r ?r)
                          (doveadm_mail_server_user_server ?r
                             (example_full_queue\<lparr>cmd_ctx := Some ?ctx\<rparr>)) = Inr s1
                   else s1 = doveadm_mail_server_user_server ?r
                               (example_full_queue\<lparr>cmd_ctx := Some ?ctx\<rparr>))
                \<and> s' = doveadm_server_queue_push (host_r ?r) (user_r ?r) s1)"
    using username_queued_below_maximum_or_after_flush
      [where x = ?x and io_loop_run = example_io_loop_run and fuel = 1 and ctx = ?ctx
        and input = example_input and err = None and s = example_full_queue
        and rc = 1 and e = "Some ''doveadm server failure''" and s' = s',
       unfolded Let_def]
      s' [unfolded example_user_def]
    by blast
  moreover have "server_queue s' ''b:2000'' \<noteq> server_queue example_full_queue ''b:2000''"
    unfolding q q' by simp
  then have "\<not> (\<forall>n. server_queue s' n = server_queue example_full_queue n)"
    by blast
  ultimately obtain s1 where
    "doveadm_server_flush_one example_io_loop_run 1 ''b:2000''
       (doveadm_mail_server_user_server ?r
          (example_full_queue\<lparr>cmd_ctx := Some ?ctx\<rparr>)) = Inr s1"
    "s' = doveadm_server_queue_push ''b:2000'' ''alice'' s1"
    using full unfolding hr by auto
  then show ?thesis
    using s' full unfolding r by blast
qed

end
